theory Spec2Isabelle
  imports Complex_Main "HOL-Library.Sublist" "HOL-Library.Signed_Division"
begin

section \<open>Thrown values and the quota test\<close>

text \<open>
  A JavaScript \<^verbatim>\<open>throw\<close> can raise any value. The model keeps the two shapes the
  code distinguishes: \<^verbatim>\<open>undefined\<close> (the initial value of \<^verbatim>\<open>lastError\<close> in
  \<^verbatim>\<open>withRetry\<close>) and an error object whose \<^verbatim>\<open>message\<close> is a string or is absent.
\<close>

datatype thrown = Undefined | Error "string option"

text \<open>Reading \<^verbatim>\<open>err.message\<close> of \<^verbatim>\<open>undefined\<close> raises a TypeError.\<close>

definition TypeError :: thrown where
  "TypeError = Error (Some ''Cannot read properties of undefined'')"

text \<open>\<^verbatim>\<open>String.prototype.includes\<close>: the search string occurs contiguously.\<close>

fun str_includes :: "string \<Rightarrow> string \<Rightarrow> bool" where
  "str_includes [] search = (search = [])"
| "str_includes (c # s) search = (prefix search (c # s) \<or> str_includes s search)"

text \<open>
  \<^verbatim>\<open>err.message?.includes("429") || err.message?.includes("RESOURCE_EXHAUSTED")\<close>,
  read as a condition: an absent message gives \<^verbatim>\<open>undefined\<close>, which is falsy.
  The same expression stands in \<^verbatim>\<open>withRetry\<close> and in the catch of \<^verbatim>\<open>runPipeline\<close>.
\<close>

fun isQuotaError :: "thrown \<Rightarrow> thrown + bool" where
  "isQuotaError Undefined = Inl TypeError"
| "isQuotaError (Error None) = Inr False"
| "isQuotaError (Error (Some m)) =
     Inr (str_includes m ''429'' \<or> str_includes m ''RESOURCE_EXHAUSTED'')"

section \<open>The retry wrapper\<close>

text \<open>
  What one call of \<^verbatim>\<open>withRetry\<close> did: the value returned or the value thrown, how many
  times \<^verbatim>\<open>fn\<close> was called, and the delays passed to \<^verbatim>\<open>setTimeout\<close>, in order.
\<close>

record 'a outcome =
  result :: "thrown + 'a"
  attempts :: nat
  delays :: "real list"

text \<open>
  The \<^verbatim>\<open>for\<close> loop of \<^verbatim>\<open>withRetry\<close>. The service is not deterministic, so \<open>fn i\<close>
  is what the call of \<^verbatim>\<open>fn\<close> made in iteration \<open>i\<close> settles to, and \<open>random i\<close> is
  the value \<^verbatim>\<open>Math.random()\<close> gives in iteration \<open>i\<close>. Arithmetic on delays is exact.
\<close>

function retryLoop ::
  "(nat \<Rightarrow> thrown + 'a) \<Rightarrow> (nat \<Rightarrow> real) \<Rightarrow> nat \<Rightarrow> nat \<Rightarrow> thrown \<Rightarrow> real list \<Rightarrow> 'a outcome"
where
  "retryLoop fn random maxRetries i lastError waits =
     (if i < maxRetries then
        (case fn i of
           Inr v \<Rightarrow> \<lparr>result = Inr v, attempts = i + 1, delays = waits\<rparr>
         | Inl err \<Rightarrow>
             (case isQuotaError err of
                Inl e \<Rightarrow> \<lparr>result = Inl e, attempts = i + 1, delays = waits\<rparr>
              | Inr isQuota \<Rightarrow>
                  if isQuota \<and> int i < int maxRetries - 1
                  then retryLoop fn random maxRetries (i + 1) err
                         (waits @ [2 ^ i * 1000 + random i * 1000])
                  else \<lparr>result = Inl err, attempts = i + 1, delays = waits\<rparr>))
      else \<lparr>result = Inl lastError, attempts = i, delays = waits\<rparr>)"
  by pat_completeness auto
termination
  by (relation "measure (\<lambda>(fn, random, maxRetries, i, lastError, waits). maxRetries - i)") auto

declare retryLoop.simps [simp del]

definition withRetry :: "(nat \<Rightarrow> thrown + 'a) \<Rightarrow> (nat \<Rightarrow> real) \<Rightarrow> nat \<Rightarrow> 'a outcome" where
  "withRetry fn random maxRetries = retryLoop fn random maxRetries 0 Undefined []"

text \<open>A failure the wrapper classifies as rate limited.\<close>

definition rateLimited :: "thrown \<Rightarrow> bool" where
  "rateLimited err = (isQuotaError err = Inr True)"

text \<open>
  Helpers for reasoning about the loop: whether iteration \<open>i\<close> takes the
  \<^verbatim>\<open>continue\<close> branch, and what the loop throws for a caught error when it does not.
\<close>

definition retries :: "(nat \<Rightarrow> thrown + 'a) \<Rightarrow> nat \<Rightarrow> nat \<Rightarrow> bool" where
  "retries fn maxRetries i =
     (i + 1 < maxRetries \<and> (case fn i of Inr v \<Rightarrow> False | Inl err \<Rightarrow> rateLimited err))"

definition rethrown :: "thrown \<Rightarrow> thrown" where
  "rethrown err = (case isQuotaError err of Inl e \<Rightarrow> e | Inr isQuota \<Rightarrow> err)"

definition settle :: "thrown + 'a \<Rightarrow> thrown + 'a" where
  "settle r = (case r of Inr v \<Rightarrow> Inr v | Inl err \<Rightarrow> Inl (rethrown err))"

section \<open>The data model (types.ts)\<close>

text \<open>JavaScript numbers that hold counts and levels are natural numbers here.\<close>

record Subtopic =
  title :: string
  key_concepts :: "string list"

record Flashcard =
  flashcard_id :: string
  front :: string
  card_back :: string

record Topic =
  topic_id :: string
  title :: string
  summary :: string
  difficulty_level :: nat
  importance_score :: nat
  subtopics :: "Subtopic list"
  flashcards :: "Flashcard list option"

record TopicExtractionResponse =
  topics :: "Topic list"

record QuizQuestion =
  question_id :: string
  question :: string
  difficulty :: nat
  options :: "string list"
  correct_answer :: string
  explanation :: string

record QuizResponse =
  quiz :: "QuizQuestion list"

datatype EntityType = Concept | Person | Theory | Method

record Entity =
  entity_id :: string
  entity_type :: EntityType
  name :: string

record Relationship =
  source :: string
  target :: string
  relation :: string

record KnowledgeGraphResponse =
  entities :: "Entity list"
  relationships :: "Relationship list"

record SummaryResponse =
  overview :: string
  key_takeaways :: "string list"
  detailed_summary :: string

datatype AppState =
  IDLE | ANALYZING | TOPICS_VIEW | QUIZ_VIEW | KG_VIEW | SUMMARY_VIEW | FLASHCARDS_VIEW

section \<open>The reasoning service and its requests\<close>

text \<open>Template literals: decimal rendering of a count, \<^verbatim>\<open>Array.prototype.join\<close>.\<close>

fun showNat :: "nat \<Rightarrow> string" where
  "showNat n =
     (if n < 10 then [''0123456789'' ! n]
      else showNat (n div 10) @ [''0123456789'' ! (n mod 10)])"

declare showNat.simps [simp del]

fun join :: "string \<Rightarrow> string list \<Rightarrow> string" where
  "join sep [] = []"
| "join sep [x] = x"
| "join sep (x # y # ys) = x @ sep @ join sep (y # ys)"

definition NL :: string where
  "NL = [CHR 0x0A]"

definition QUOTES :: string where
  "QUOTES = [CHR 0x22, CHR 0x22, CHR 0x22]"

text \<open>
  The argument of \<^verbatim>\<open>ai.models.generateContent\<close>, without the response schema (the
  schema is sent to the service; the client never checks a response against it).
\<close>

record request =
  model :: string
  contents :: string
  systemInstruction :: string

definition topicsRequest :: "string \<Rightarrow> request" where
  "topicsRequest lectureText =
     \<lparr>model = ''gemini-3-flash-preview'',
      contents =
        ''Analyze the following university-level lecture content.'' @ NL @
        ''Your task:'' @ NL @
        ''1. Extract main topics.'' @ NL @
        ''2. Extract subtopics for each topic.'' @ NL @
        ''3. Assign a difficulty level from 1 (basic) to 5 (advanced).'' @ NL @
        ''4. Estimate importance score from 1-10.'' @ NL @
        ''5. Return structured JSON.'' @ NL @ NL @
        ''Lecture Content:'' @ NL @ QUOTES @ NL @ lectureText @ NL @ QUOTES,
      systemInstruction =
        ''You are an academic content analysis engine. Your job is to extract structured topics from educational material. Return valid JSON only. Do not add explanations. Do not wrap output in markdown. Follow the schema strictly.''\<rparr>"

definition summaryRequest :: "string \<Rightarrow> request" where
  "summaryRequest text =
     \<lparr>model = ''gemini-3-flash-preview'',
      contents =
        ''Provide a high-level academic summary of this lecture. '' @ NL @
        ''Your response must be structured JSON.'' @ NL @ NL @
        ''Text:'' @ NL @ QUOTES @ NL @ text @ NL @ QUOTES,
      systemInstruction =
        ''You are an expert academic summarizer. Provide an overview, a list of key takeaways, and a detailed summary of the content. Return JSON only.''\<rparr>"

definition graphRequest :: "string \<Rightarrow> request" where
  "graphRequest text =
     \<lparr>model = ''gemini-3-flash-preview'',
      contents =
        ''Extract entities and relationships from the following academic text. Return structured JSON.'' @ NL @ NL @
        ''Text:'' @ NL @ QUOTES @ NL @ text @ NL @ QUOTES,
      systemInstruction =
        ''You are a knowledge extraction engine. Return valid JSON only. No markdown. No commentary.''\<rparr>"

text \<open>
  The adaptive part of the quiz prompt. \<^verbatim>\<open>adaptiveContext\<close> is \<^verbatim>\<open>{score, total}\<close>, here
  the pair \<open>(score, total')\<close>, or absent. The comparison \<^verbatim>\<open>score < total / 2\<close> is on
  JavaScript numbers, so the division is not truncated.
\<close>

definition easierDirective :: "nat \<Rightarrow> nat \<Rightarrow> string" where
  "easierDirective score total' =
     ''The student answered '' @ showNat score @ ''/'' @ showNat total' @
     '' questions incorrectly. Regenerate 5 easier questions focusing on fundamentals.''"

definition advancedDirective :: "nat \<Rightarrow> nat \<Rightarrow> string" where
  "advancedDirective score total' =
     ''The student answered '' @ showNat score @ ''/'' @ showNat total' @
     '' correctly. Generate 5 advanced-level application-based questions (scenario-based).''"

fun adaptivePrompt :: "(nat \<times> nat) option \<Rightarrow> string" where
  "adaptivePrompt None = []"
| "adaptivePrompt (Some (score, total')) =
     (if real score < real total' / 2 then easierDirective score total'
      else if score = total' then advancedDirective score total'
      else [])"

definition quizBody :: "Topic \<Rightarrow> string" where
  "quizBody topic =
     NL @ ''Generate 5 multiple-choice questions for the following topic.'' @ NL @
     ''Rules:'' @ NL @
     ''- Questions must test understanding, not memorization.'' @ NL @
     ''- Include one clearly correct answer.'' @ NL @
     ''- Distractors must be plausible.'' @ NL @
     ''- Difficulty level must match the given difficulty.'' @ NL @
     ''- Avoid ambiguous phrasing.'' @ NL @ NL @
     ''Topic:'' @ NL @
     ''Title: '' @ title topic @ NL @
     ''Difficulty: '' @ showNat (difficulty_level topic) @ NL @
     ''Summary: '' @ summary topic @ NL @ NL @
     ''Subtopics:'' @ NL @
     join NL (map (\<lambda>s. ''- '' @ Subtopic.title s @ '': '' @ join '', '' (key_concepts s))
                (subtopics topic))"

definition quizRequest :: "Topic \<Rightarrow> (nat \<times> nat) option \<Rightarrow> request" where
  "quizRequest topic adaptiveContext =
     \<lparr>model = ''gemini-3-flash-preview'',
      contents = adaptivePrompt adaptiveContext @ quizBody topic,
      systemInstruction =
        ''You are a university-level assessment generation engine. Return valid JSON only. No explanations. No markdown. Strictly follow schema. Ensure correct_answer matches exactly one option. Shuffle correct answer position.''\<rparr>"

text \<open>
  The environment of a run. The service is generative and not deterministic: its answers
  are given per request number (the number of requests sent before), already through
  \<^verbatim>\<open>JSON.parse\<close> and cast to the response type, or the value thrown by the call or the
  parse. \<open>mathRandom k\<close> is the value of the \<open>k\<close>-th call of \<^verbatim>\<open>Math.random()\<close>.
\<close>

record env =
  summaryService :: "nat \<Rightarrow> request \<Rightarrow> thrown + SummaryResponse"
  graphService :: "nat \<Rightarrow> request \<Rightarrow> thrown + KnowledgeGraphResponse"
  topicService :: "nat \<Rightarrow> request \<Rightarrow> thrown + TopicExtractionResponse"
  quizService :: "nat \<Rightarrow> request \<Rightarrow> thrown + QuizResponse"
  mathRandom :: "nat \<Rightarrow> real"

text \<open>What the program did to the outside, in order.\<close>

datatype invocation =
  GenerateGeneralSummary string
| ExtractKnowledgeGraph string
| ExtractTopics string
| GenerateQuiz Topic "(nat \<times> nat) option"

record world =
  invoked :: "invocation list"
  requests :: "request list"
  timers :: "real list"
  alerts :: "string list"

text \<open>
  The body shared by the four exported service functions:
  \<^verbatim>\<open>withRetry(async () => JSON.parse((await ai.models.generateContent(req)).text || '{}'))\<close>
  with the default \<^verbatim>\<open>maxRetries = 3\<close>. The parsed payload is returned as it is.
\<close>

definition callService ::
  "(nat \<Rightarrow> request \<Rightarrow> thrown + 'a) \<Rightarrow> env \<Rightarrow> request \<Rightarrow> world \<Rightarrow> (thrown + 'a) \<times> world"
where
  "callService service e req w =
     (let out = withRetry (\<lambda>i. service (length (requests w) + i) req)
                  (\<lambda>i. mathRandom e (length (timers w) + i)) 3
      in (result out,
          w\<lparr>requests := requests w @ replicate (attempts out) req,
            timers := timers w @ delays out\<rparr>))"

definition extractTopics ::
  "env \<Rightarrow> string \<Rightarrow> world \<Rightarrow> (thrown + TopicExtractionResponse) \<times> world" where
  "extractTopics e lectureText w =
     callService (topicService e) e (topicsRequest lectureText)
       (w\<lparr>invoked := invoked w @ [ExtractTopics lectureText]\<rparr>)"

definition generateGeneralSummary ::
  "env \<Rightarrow> string \<Rightarrow> world \<Rightarrow> (thrown + SummaryResponse) \<times> world" where
  "generateGeneralSummary e text w =
     callService (summaryService e) e (summaryRequest text)
       (w\<lparr>invoked := invoked w @ [GenerateGeneralSummary text]\<rparr>)"

definition generateQuiz ::
  "env \<Rightarrow> Topic \<Rightarrow> (nat \<times> nat) option \<Rightarrow> world \<Rightarrow> (thrown + QuizResponse) \<times> world" where
  "generateQuiz e topic adaptiveContext w =
     callService (quizService e) e (quizRequest topic adaptiveContext)
       (w\<lparr>invoked := invoked w @ [GenerateQuiz topic adaptiveContext]\<rparr>)"

definition extractKnowledgeGraph ::
  "env \<Rightarrow> string \<Rightarrow> world \<Rightarrow> (thrown + KnowledgeGraphResponse) \<times> world" where
  "extractKnowledgeGraph e text w =
     callService (graphService e) e (graphRequest text)
       (w\<lparr>invoked := invoked w @ [ExtractKnowledgeGraph text]\<rparr>)"

section \<open>The application (App.tsx)\<close>

text \<open>The state of the \<^verbatim>\<open>App\<close> component: one field per \<^verbatim>\<open>useState\<close>.\<close>

record App =
  lectureText :: string
  appState :: AppState
  topics :: "Topic list"
  currentQuiz :: "QuizQuestion list"
  kgData :: "KnowledgeGraphResponse option"
  summaryData :: "SummaryResponse option"
  selectedTopic :: "Topic option"
  loadingMsg :: string
  uploadedFileName :: "string option"
  isProcessingFile :: bool

text \<open>
  \<^verbatim>\<open>String.prototype.trim\<close> on the code units below 256: tab, line feed, vertical tab,
  form feed, carriage return, space and no-break space are white space.
\<close>

definition isWhiteSpace :: "char \<Rightarrow> bool" where
  "isWhiteSpace c =
     (c \<in> set [CHR 0x09, CHR 0x0A, CHR 0x0B, CHR 0x0C, CHR 0x0D, CHR 0x20, CHR 0xA0])"

definition trim :: "string \<Rightarrow> string" where
  "trim s = rev (dropWhile isWhiteSpace (rev (dropWhile isWhiteSpace s)))"

text \<open>
  The \<^verbatim>\<open>catch\<close> block of \<^verbatim>\<open>runPipeline\<close>. If reading \<^verbatim>\<open>err.message\<close> throws, the
  block is left before \<^verbatim>\<open>alert\<close> and \<^verbatim>\<open>setAppState('IDLE')\<close>, and the promise of
  \<^verbatim>\<open>runPipeline\<close> rejects. The list holds the component's states after each setter
  call so far, oldest first.
\<close>

definition pipelineCatch ::
  "thrown \<Rightarrow> App list \<Rightarrow> App \<Rightarrow> world \<Rightarrow> thrown option \<times> App list \<times> world" where
  "pipelineCatch err frames app w =
     (case isQuotaError err of
        Inl e \<Rightarrow> (Some e, frames, w)
      | Inr isQuota \<Rightarrow>
          (None,
           frames @ [app\<lparr>appState := IDLE\<rparr>],
           w\<lparr>alerts := alerts w @
               [if isQuota
                then ''API Quota Exceeded. Please wait a minute and try again. Switch to a paid key for higher limits.''
                else ''Analysis failed. Please try again with different content.'']\<rparr>))"

text \<open>The message the \<^verbatim>\<open>catch\<close> block alerts for a caught error object.\<close>

definition failureAlert :: "thrown \<Rightarrow> string" where
  "failureAlert err =
     (if rateLimited err
      then ''API Quota Exceeded. Please wait a minute and try again. Switch to a paid key for higher limits.''
      else ''Analysis failed. Please try again with different content.'')"

text \<open>
  \<^verbatim>\<open>runPipeline\<close>. The result is the rejection of its promise if any, the component's
  state after each setter call in order (React may show any of them, and shows the last),
  and the world afterwards.
\<close>

definition runPipeline ::
  "env \<Rightarrow> string \<Rightarrow> App \<Rightarrow> world \<Rightarrow> thrown option \<times> App list \<times> world" where
  "runPipeline e text app w =
     (if trim text = [] then (None, [], w)
      else
        let a1 = app\<lparr>appState := ANALYZING\<rparr>;
            a2 = a1\<lparr>loadingMsg := ''Distilling Core Intelligence...''\<rparr>
        in case generateGeneralSummary e text w of
             (Inl err, w1) \<Rightarrow> pipelineCatch err [a1, a2] a2 w1
           | (Inr summaryResp, w1) \<Rightarrow>
               let a3 = a2\<lparr>summaryData := Some summaryResp\<rparr>;
                   a4 = a3\<lparr>loadingMsg := ''Mapping Semantic Relationships...''\<rparr>
               in case extractKnowledgeGraph e text w1 of
                    (Inl err, w2) \<Rightarrow> pipelineCatch err [a1, a2, a3, a4] a4 w2
                  | (Inr kgResp, w2) \<Rightarrow>
                      let a5 = a4\<lparr>kgData := Some kgResp\<rparr>;
                          a6 = a5\<lparr>loadingMsg := ''Deconstructing Lecture Architecture...''\<rparr>
                      in case extractTopics e text w2 of
                           (Inl err, w3) \<Rightarrow> pipelineCatch err [a1, a2, a3, a4, a5, a6] a6 w3
                         | (Inr topicResp, w3) \<Rightarrow>
                             let a7 = a6\<lparr>topics := TopicExtractionResponse.topics topicResp\<rparr>;
                                 a8 = a7\<lparr>appState := SUMMARY_VIEW\<rparr>
                             in (None, [a1, a2, a3, a4, a5, a6, a7, a8], w3))"

text \<open>The state the component is left in: the last one set, or the old one if none was.\<close>

definition finalApp :: "App \<Rightarrow> thrown option \<times> App list \<times> world \<Rightarrow> App" where
  "finalApp app r = last (app # fst (snd r))"

text \<open>\<^verbatim>\<open>handleStartQuiz\<close>: the state after its last setter call.\<close>

definition handleStartQuiz :: "env \<Rightarrow> Topic \<Rightarrow> App \<Rightarrow> world \<Rightarrow> App \<times> world" where
  "handleStartQuiz e topic app w =
     (let a = app\<lparr>appState := ANALYZING,
                   loadingMsg := ''Generating Mastery Assessment for '' @ [CHR 0x22] @
                                 title topic @ [CHR 0x22] @ ''...'',
                   selectedTopic := Some topic\<rparr>
      in case generateQuiz e topic None w of
           (Inr resp, w1) \<Rightarrow> (a\<lparr>currentQuiz := quiz resp, appState := QUIZ_VIEW\<rparr>, w1)
         | (Inl err, w1) \<Rightarrow> (a\<lparr>appState := TOPICS_VIEW\<rparr>, w1))"

text \<open>
  What the \<^verbatim>\<open>main\<close> element of \<^verbatim>\<open>App\<close> shows for a state: the JSX renders one block
  per value of \<^verbatim>\<open>appState\<close>, some only if their artifact is not null.
\<close>

datatype screen =
  UploadForm
| Spinner string
| SummaryScreen SummaryResponse
| TopicsScreen "Topic list"
| GraphScreen KnowledgeGraphResponse
| QuizScreen "QuizQuestion list" Topic
| Blank

definition render :: "App \<Rightarrow> screen" where
  "render app =
     (case appState app of
        IDLE \<Rightarrow> UploadForm
      | ANALYZING \<Rightarrow> Spinner (loadingMsg app)
      | SUMMARY_VIEW \<Rightarrow> (case summaryData app of None \<Rightarrow> Blank | Some s \<Rightarrow> SummaryScreen s)
      | TOPICS_VIEW \<Rightarrow> TopicsScreen (topics app)
      | KG_VIEW \<Rightarrow> (case kgData app of None \<Rightarrow> Blank | Some g \<Rightarrow> GraphScreen g)
      | QUIZ_VIEW \<Rightarrow>
          (case selectedTopic app of None \<Rightarrow> Blank | Some t \<Rightarrow> QuizScreen (currentQuiz app) t)
      | FLASHCARDS_VIEW \<Rightarrow> Blank)"

section \<open>Flashcards (FlashcardsView.tsx)\<close>

text \<open>
  The index is a JavaScript number: \<open>None\<close> is \<^verbatim>\<open>NaN\<close>, which \<^verbatim>\<open>%\<close> gives for an
  empty deck. \<^verbatim>\<open>%\<close> takes the sign of the dividend.
\<close>

record FlashcardsView =
  flashcards :: "Flashcard list"
  currentIdx :: "int option"
  isFlipped :: bool

definition jsRem :: "int \<Rightarrow> int \<Rightarrow> int option" where
  "jsRem a b = (if b = 0 then None else Some (a smod b))"

definition flashcardsHandleNext :: "FlashcardsView \<Rightarrow> FlashcardsView" where
  "flashcardsHandleNext v =
     (let v1 = v\<lparr>isFlipped := False\<rparr>
      in v1\<lparr>currentIdx :=
               (case currentIdx v1 of None \<Rightarrow> None
                | Some prev \<Rightarrow> jsRem (prev + 1) (int (length (flashcards v1))))\<rparr>)"

definition flashcardsHandlePrev :: "FlashcardsView \<Rightarrow> FlashcardsView" where
  "flashcardsHandlePrev v =
     (let v1 = v\<lparr>isFlipped := False\<rparr>
      in v1\<lparr>currentIdx :=
               (case currentIdx v1 of None \<Rightarrow> None
                | Some prev \<Rightarrow>
                    jsRem (prev - 1 + int (length (flashcards v1))) (int (length (flashcards v1))))\<rparr>)"

section \<open>The quiz (QuizView.tsx)\<close>

text \<open>
  The props \<^verbatim>\<open>questions\<close> and \<^verbatim>\<open>topic\<close> (the parent's \<^verbatim>\<open>currentQuiz\<close>, replaced
  through \<^verbatim>\<open>onRetake\<close>, and \<^verbatim>\<open>selectedTopic\<close>) and one field per \<^verbatim>\<open>useState\<close>.
\<close>

record QuizView =
  questions :: "QuizQuestion list"
  topic :: Topic
  currentIdx :: nat
  selectedOption :: "string option"
  isAnswered :: bool
  score :: nat
  isFinishing :: bool
  isAdapting :: bool

definition mount :: "QuizQuestion list \<Rightarrow> Topic \<Rightarrow> QuizView" where
  "mount qs t =
     \<lparr>questions = qs, topic = t, currentIdx = 0, selectedOption = None, isAnswered = False,
      score = 0, isFinishing = False, isAdapting = False\<rparr>"

text \<open>\<^verbatim>\<open>questions[currentIdx]\<close>: \<^verbatim>\<open>undefined\<close> out of range.\<close>

definition currentQuestion :: "QuizView \<Rightarrow> QuizQuestion option" where
  "currentQuestion v =
     (if currentIdx v < length (questions v) then Some (questions v ! currentIdx v) else None)"

text \<open>\<^verbatim>\<open>!selectedOption\<close>: \<^verbatim>\<open>null\<close> and the empty string are falsy.\<close>

definition falsy :: "string option \<Rightarrow> bool" where
  "falsy x = (case x of None \<Rightarrow> True | Some str \<Rightarrow> str = [])"

definition handleOptionClick :: "string \<Rightarrow> QuizView \<Rightarrow> QuizView" where
  "handleOptionClick option v = (if isAnswered v then v else v\<lparr>selectedOption := Some option\<rparr>)"

text \<open>
  \<^verbatim>\<open>handleSubmit\<close>. Reading \<^verbatim>\<open>currentQuestion.correct_answer\<close> of an undefined
  question throws.
\<close>

definition handleSubmit :: "QuizView \<Rightarrow> thrown + QuizView" where
  "handleSubmit v =
     (if falsy (selectedOption v) then Inr v
      else
        let v1 = v\<lparr>isAnswered := True\<rparr>
        in case currentQuestion v of
             None \<Rightarrow> Inl TypeError
           | Some q \<Rightarrow>
               if selectedOption v = Some (correct_answer q)
               then Inr (v1\<lparr>score := score v1 + 1\<rparr>)
               else Inr v1)"

definition handleNext :: "QuizView \<Rightarrow> QuizView" where
  "handleNext v =
     (if int (currentIdx v) < int (length (questions v)) - 1
      then v\<lparr>currentIdx := currentIdx v + 1, selectedOption := None, isAnswered := False\<rparr>
      else v\<lparr>isFinishing := True\<rparr>)"

text \<open>
  \<^verbatim>\<open>handleAdaptiveRetake\<close>: the component's state after each setter call, in order
  (\<^verbatim>\<open>onRetake\<close> sets the parent's \<^verbatim>\<open>currentQuiz\<close>, which is the \<^verbatim>\<open>questions\<close> prop),
  and the world afterwards. The first state is the one shown while the request is awaited.
\<close>

definition handleAdaptiveRetake :: "env \<Rightarrow> QuizView \<Rightarrow> world \<Rightarrow> QuizView list \<times> world" where
  "handleAdaptiveRetake e v w =
     (let v1 = v\<lparr>isAdapting := True\<rparr>
      in case generateQuiz e (topic v) (Some (score v, length (questions v))) w of
           (Inr resp, w1) \<Rightarrow>
             (let v2 = v1\<lparr>questions := quiz resp\<rparr>;
                  v3 = v2\<lparr>currentIdx := 0\<rparr>;
                  v4 = v3\<lparr>selectedOption := None\<rparr>;
                  v5 = v4\<lparr>isAnswered := False\<rparr>;
                  v6 = v5\<lparr>score := 0\<rparr>;
                  v7 = v6\<lparr>isFinishing := False\<rparr>;
                  v8 = v7\<lparr>isAdapting := False\<rparr>
              in ([v1, v2, v3, v4, v5, v6, v7, v8], w1))
         | (Inl err, w1) \<Rightarrow> ([v1, v1\<lparr>isAdapting := False\<rparr>], w1))"

text \<open>
  The operations the rendered component offers. The results page (\<^verbatim>\<open>isFinishing\<close>)
  has the adaptive button, disabled while adapting. The question page needs the current
  question (rendering \<^verbatim>\<open>currentQuestion.question\<close> of an undefined question throws and
  nothing is shown); it has one button per option, disabled once answered, and either
  the submit button, disabled while \<^verbatim>\<open>!selectedOption\<close>, or, once answered, the next
  button.
\<close>

datatype event = Select string | Submit | Advance | AdaptiveRetake

fun enabled :: "QuizView \<Rightarrow> event \<Rightarrow> bool" where
  "enabled v (Select option) =
     (\<not> isFinishing v \<and>
      (case currentQuestion v of None \<Rightarrow> False
       | Some q \<Rightarrow> option \<in> set (options q) \<and> \<not> isAnswered v))"
| "enabled v Submit =
     (\<not> isFinishing v \<and> currentQuestion v \<noteq> None \<and> \<not> isAnswered v \<and>
      \<not> falsy (selectedOption v))"
| "enabled v Advance = (\<not> isFinishing v \<and> currentQuestion v \<noteq> None \<and> isAnswered v)"
| "enabled v AdaptiveRetake = (isFinishing v \<and> \<not> isAdapting v)"

text \<open>One operation, if the component offers it, and a sequence of them.\<close>

fun fire :: "env \<Rightarrow> event \<Rightarrow> QuizView \<times> world \<Rightarrow> (QuizView \<times> world) option" where
  "fire e ev (v, w) =
     (if \<not> enabled v ev then None
      else case ev of
             Select option \<Rightarrow> Some (handleOptionClick option v, w)
           | Submit \<Rightarrow> (case handleSubmit v of Inl err \<Rightarrow> None | Inr v' \<Rightarrow> Some (v', w))
           | Advance \<Rightarrow> Some (handleNext v, w)
           | AdaptiveRetake \<Rightarrow>
               (case handleAdaptiveRetake e v w of (frames, w') \<Rightarrow> Some (last (v # frames), w')))"

declare fire.simps [simp del]

fun exec :: "env \<Rightarrow> event list \<Rightarrow> QuizView \<times> world \<Rightarrow> (QuizView \<times> world) option" where
  "exec e [] st = Some st"
| "exec e (ev # evs) st = (case fire e ev st of None \<Rightarrow> None | Some st' \<Rightarrow> exec e evs st')"

text \<open>
  The invariant of a session: the score counts answered questions only, so it is at most
  the index, or one more once the current question is answered; the index is within the
  questions, unless there are none (then nothing is rendered and nothing can happen).
\<close>

definition sessionInv :: "QuizView \<Rightarrow> bool" where
  "sessionInv v =
     ((score v \<le> currentIdx v \<or> (isAnswered v \<and> score v \<le> currentIdx v + 1))
      \<and> (currentIdx v < length (questions v)
         \<or> (questions v = [] \<and> currentIdx v = 0 \<and> \<not> isAnswered v)))"

section \<open>Initial states and sample inputs\<close>

text \<open>The initial values of the \<^verbatim>\<open>useState\<close> calls of \<^verbatim>\<open>App\<close>, and a world where nothing
  has happened yet.\<close>

definition initialApp :: App where
  "initialApp =
     \<lparr>lectureText = [], appState = IDLE, topics = [], currentQuiz = [], kgData = None,
      summaryData = None, selectedTopic = None, loadingMsg = [], uploadedFileName = None,
      isProcessingFile = False\<rparr>"

definition freshWorld :: world where
  "freshWorld = \<lparr>invoked = [], requests = [], timers = [], alerts = []\<rparr>"

text \<open>Concrete inputs on which the theorems below are exercised.\<close>

definition sampleTopic :: Topic where
  "sampleTopic =
     \<lparr>topic_id = ''t1'', title = ''Sorting'', summary = ''Comparison sorts'',
      difficulty_level = 2, importance_score = 7,
      subtopics = [\<lparr>Subtopic.title = ''Merge sort'', key_concepts = [''merge'', ''stability'']\<rparr>],
      flashcards = None\<rparr>"

definition sampleQuestion :: QuizQuestion where
  "sampleQuestion =
     \<lparr>question_id = ''q1'', question = ''Which sort is stable?'', difficulty = 2,
      options = [''Merge sort'', ''Heap sort''], correct_answer = ''Merge sort'',
      explanation = ''Merging keeps equal keys in order.''\<rparr>"

text \<open>A question whose correct answer is none of its options.\<close>

definition strayQuestion :: QuizQuestion where
  "strayQuestion =
     \<lparr>question_id = ''q2'', question = ''Which sort is in place?'', difficulty = 2,
      options = [''Merge sort'', ''Heap sort''], correct_answer = ''heap sort'',
      explanation = ''Heap sort needs no second array.''\<rparr>"

text \<open>A question that has the empty string among its options, as the correct one.\<close>

definition blankQuestion :: QuizQuestion where
  "blankQuestion =
     \<lparr>question_id = ''q3'', question = ''What does trim return for a blank string?'',
      difficulty = 1, options = [[], ''a space''], correct_answer = [],
      explanation = ''The empty string.''\<rparr>"

definition sampleSummary :: SummaryResponse where
  "sampleSummary =
     \<lparr>overview = ''Sorting algorithms'', key_takeaways = [''Stability matters''],
      detailed_summary = ''A survey of comparison sorts.''\<rparr>"

definition sampleGraph :: KnowledgeGraphResponse where
  "sampleGraph =
     \<lparr>entities = [\<lparr>entity_id = ''e1'', entity_type = Method, name = ''Merge sort''\<rparr>],
      relationships = []\<rparr>"

text \<open>A service that answers every request at once, and ones that fail.\<close>

definition calmEnv :: env where
  "calmEnv =
     \<lparr>summaryService = (\<lambda>k req. Inr sampleSummary),
      graphService = (\<lambda>k req. Inr sampleGraph),
      topicService = (\<lambda>k req. Inr \<lparr>TopicExtractionResponse.topics = [sampleTopic]\<rparr>),
      quizService = (\<lambda>k req. Inr \<lparr>quiz = [sampleQuestion]\<rparr>),
      mathRandom = (\<lambda>k. 1 / 2)\<rparr>"

definition graphDownEnv :: env where
  "graphDownEnv = calmEnv\<lparr>graphService := (\<lambda>k req. Inl (Error (Some ''500 Internal error'')))\<rparr>"

definition summaryDownEnv :: env where
  "summaryDownEnv = calmEnv\<lparr>summaryService := (\<lambda>k req. Inl (Error None))\<rparr>"

definition topicsThrottledEnv :: env where
  "topicsThrottledEnv =
     calmEnv\<lparr>topicService := (\<lambda>k req. Inl (Error (Some ''429 RESOURCE_EXHAUSTED'')))\<rparr>"

text \<open>A knowledge-graph service that is rate limited at the second and third request of
  a run (numbers 1 and 2) and answers from then on.\<close>

definition flakyEnv :: env where
  "flakyEnv =
     calmEnv\<lparr>graphService :=
       (\<lambda>k req. if 1 \<le> k \<and> k < 3 then Inl (Error (Some ''429 Too Many Requests''))
                else Inr sampleGraph)\<rparr>"

definition quizDownEnv :: env where
  "quizDownEnv = calmEnv\<lparr>quizService := (\<lambda>k req. Inl (Error (Some ''500 Internal error'')))\<rparr>"

definition strayEnv :: env where
  "strayEnv = calmEnv\<lparr>quizService := (\<lambda>k req. Inr \<lparr>quiz = [strayQuestion]\<rparr>)\<rparr>"

text \<open>A finished session: one question, answered correctly, results page shown.\<close>

definition completedView :: QuizView where
  "completedView =
     \<lparr>questions = [sampleQuestion], topic = sampleTopic, currentIdx = 0,
      selectedOption = Some ''Merge sort'', isAnswered = True, score = 1,
      isFinishing = True, isAdapting = False\<rparr>"

text \<open>A session over two questions, the first one answered.\<close>

definition midwayView :: QuizView where
  "midwayView =
     \<lparr>questions = [sampleQuestion, strayQuestion], topic = sampleTopic, currentIdx = 0,
      selectedOption = Some ''Heap sort'', isAnswered = True, score = 0,
      isFinishing = False, isAdapting = False\<rparr>"

text \<open>The application showing the topics of an analysed lecture.\<close>

definition browsingApp :: App where
  "browsingApp = initialApp\<lparr>appState := TOPICS_VIEW, topics := [sampleTopic]\<rparr>"

section \<open>Properties of the retry wrapper\<close>

lemma retries_iff:
  "retries fn maxRetries k \<longleftrightarrow> k + 1 < maxRetries \<and> (\<exists>e. fn k = Inl e \<and> rateLimited e)"
  by (cases "fn k") (simp_all add: retries_def)

lemma rethrown_eq: "rethrown e = (if e = Undefined then TypeError else e)"
proof (cases e)
  case Undefined
  then show ?thesis by (simp add: rethrown_def)
next
  case (Error m)
  then show ?thesis by (cases m) (simp_all add: rethrown_def)
qed

lemma retryLoop_step:
  assumes "retries fn maxRetries i"
  shows "retryLoop fn random maxRetries i lastError waits =
         retryLoop fn random maxRetries (i + 1) (case fn i of Inl err \<Rightarrow> err)
           (waits @ [2 ^ i * 1000 + random i * 1000])"
  using assms
  by (subst retryLoop.simps) (auto simp: retries_def rateLimited_def split: sum.splits)

lemma retryLoop_stop:
  assumes "\<not> retries fn maxRetries i" "i < maxRetries"
  shows "retryLoop fn random maxRetries i lastError waits =
         \<lparr>result = settle (fn i), attempts = i + 1, delays = waits\<rparr>"
  using assms
  by (subst retryLoop.simps)
     (auto simp: retries_def rateLimited_def settle_def rethrown_def split: sum.splits)

lemma retryLoop_exhausted:
  assumes "\<not> i < maxRetries"
  shows "retryLoop fn random maxRetries i lastError waits =
         \<lparr>result = Inl lastError, attempts = i, delays = waits\<rparr>"
  using assms by (subst retryLoop.simps) simp

lemma retryLoop_attempts:
  "i < maxRetries \<Longrightarrow> i < attempts (retryLoop fn random maxRetries i lastError waits)
     \<and> attempts (retryLoop fn random maxRetries i lastError waits) \<le> maxRetries"
proof (induction "maxRetries - i" arbitrary: i lastError waits)
  case 0
  then show ?case by simp
next
  case (Suc n)
  show ?case
  proof (cases "retries fn maxRetries i")
    case True
    then have "Suc i < maxRetries" by (simp add: retries_def)
    moreover have "n = maxRetries - Suc i" using Suc.hyps(2) by simp
    ultimately show ?thesis
      using Suc.hyps(1)[of "Suc i"] by (simp add: retryLoop_step[OF True]) (meson Suc_lessD)
  next
    case False
    then show ?thesis using Suc.prems by (simp add: retryLoop_stop)
  qed
qed

lemma retryLoop_delays:
  "i < maxRetries \<Longrightarrow> delays (retryLoop fn random maxRetries i lastError waits)
     = waits @ map (\<lambda>j. 2 ^ j * 1000 + random j * 1000)
         [i ..< attempts (retryLoop fn random maxRetries i lastError waits) - 1]"
proof (induction "maxRetries - i" arbitrary: i lastError waits)
  case 0
  then show ?case by simp
next
  case (Suc n)
  show ?case
  proof (cases "retries fn maxRetries i")
    case True
    then have lt: "Suc i < maxRetries" by (simp add: retries_def)
    moreover have "n = maxRetries - Suc i" using Suc.hyps(2) by simp
    moreover have "Suc i < attempts (retryLoop fn random maxRetries (Suc i)
        (case fn i of Inl err \<Rightarrow> err) (waits @ [2 ^ i * 1000 + random i * 1000]))"
      using retryLoop_attempts[OF lt] by blast
    ultimately show ?thesis
      using Suc.hyps(1)[of "Suc i"] by (simp add: retryLoop_step[OF True] upt_conv_Cons)
  next
    case False
    then show ?thesis using Suc.prems by (simp add: retryLoop_stop)
  qed
qed

lemma retryLoop_retried:
  "i < maxRetries \<Longrightarrow> i \<le> k \<Longrightarrow>
   k + 1 < attempts (retryLoop fn random maxRetries i lastError waits) \<Longrightarrow>
   retries fn maxRetries k"
proof (induction "maxRetries - i" arbitrary: i lastError waits)
  case 0
  then show ?case by simp
next
  case (Suc n)
  show ?case
  proof (cases "retries fn maxRetries i")
    case True
    then have lt: "Suc i < maxRetries" by (simp add: retries_def)
    have n: "n = maxRetries - Suc i" using Suc.hyps(2) by simp
    show ?thesis
    proof (cases "k = i")
      case True
      then show ?thesis using \<open>retries fn maxRetries i\<close> by simp
    next
      case False
      then have "Suc i \<le> k" using Suc.prems by simp
      then show ?thesis
        using Suc.hyps(1)[OF n lt, of "(case fn i of Inl err \<Rightarrow> err)"
                "(waits @ [2 ^ i * 1000 + random i * 1000])"] Suc.prems(3)
        by (simp add: retryLoop_step[OF True])
    qed
  next
    case False
    then show ?thesis using Suc.prems by (simp add: retryLoop_stop)
  qed
qed

lemma retryLoop_result:
  "i < maxRetries \<Longrightarrow> result (retryLoop fn random maxRetries i lastError waits)
     = settle (fn (attempts (retryLoop fn random maxRetries i lastError waits) - 1))"
proof (induction "maxRetries - i" arbitrary: i lastError waits)
  case 0
  then show ?case by simp
next
  case (Suc n)
  show ?case
  proof (cases "retries fn maxRetries i")
    case True
    then have lt: "Suc i < maxRetries" by (simp add: retries_def)
    have n: "n = maxRetries - Suc i" using Suc.hyps(2) by simp
    show ?thesis
      using Suc.hyps(1)[OF n lt] by (simp add: retryLoop_step[OF True])
  next
    case False
    then show ?thesis using Suc.prems by (simp add: retryLoop_stop)
  qed
qed

text \<open>
  Claim C3. In every call of the retry wrapper only a failure classified as rate limited
  (its message holds \<^verbatim>\<open>429\<close> or \<^verbatim>\<open>RESOURCE_EXHAUSTED\<close>) is retried: every attempt
  that was followed by another one failed rate limited, and each retry waited once. Any
  other failure of an attempt that was made ends the call at that attempt: no further
  attempt, no delay after it, and the failure is thrown (the caught value itself; a
  thrown \<^verbatim>\<open>undefined\<close> surfaces as the TypeError of reading its message).
\<close>

theorem withRetry_fail_fast:
  "(\<forall>k. k + 1 < attempts (withRetry fn random maxRetries) \<longrightarrow>
        (\<exists>e. fn k = Inl e \<and> rateLimited e))
   \<and> length (delays (withRetry fn random maxRetries)) = attempts (withRetry fn random maxRetries) - 1
   \<and> (\<forall>k e. k < attempts (withRetry fn random maxRetries) \<and> fn k = Inl e \<and> \<not> rateLimited e \<longrightarrow>
        attempts (withRetry fn random maxRetries) = k + 1
        \<and> length (delays (withRetry fn random maxRetries)) = k
        \<and> result (withRetry fn random maxRetries) = Inl (if e = Undefined then TypeError else e))"
proof (cases "0 < maxRetries")
  case False
  then show ?thesis by (simp add: withRetry_def retryLoop_exhausted)
next
  case True
  let ?out = "withRetry fn random maxRetries"
  have a: "\<forall>k. k + 1 < attempts ?out \<longrightarrow> (\<exists>e. fn k = Inl e \<and> rateLimited e)"
    using retryLoop_retried[OF True, of _ fn random Undefined "[]"]
    by (simp add: withRetry_def retries_iff)
  have b: "length (delays ?out) = attempts ?out - 1"
    using retryLoop_delays[OF True, of fn random Undefined "[]"] by (simp add: withRetry_def)
  have r: "result ?out = settle (fn (attempts ?out - 1))"
    using retryLoop_result[OF True] by (simp add: withRetry_def)
  have c: "attempts ?out = k + 1 \<and> length (delays ?out) = k
        \<and> result ?out = Inl (if e = Undefined then TypeError else e)"
    if h: "k < attempts ?out" "fn k = Inl e" "\<not> rateLimited e" for k e
  proof -
    have "\<not> k + 1 < attempts ?out" using a h by auto
    then have k: "attempts ?out = k + 1" using h(1) by simp
    show ?thesis using k b r h(2) by (simp add: settle_def rethrown_eq)
  qed
  show ?thesis using a b c by blast
qed

theorem withRetry_fail_fast_witness:
  "1 < attempts (withRetry (\<lambda>k. if k = 0 then Inl (Error (Some ''429 Too Many Requests''))
                                else (Inl (Error (Some ''Bad Request'')) :: thrown + bool))
                   (\<lambda>k. 1 / 2) 3)
   \<and> rateLimited (Error (Some ''429 Too Many Requests''))
   \<and> \<not> rateLimited (Error (Some ''Bad Request''))
   \<and> attempts (withRetry (\<lambda>k. if k = 0 then Inl (Error (Some ''429 Too Many Requests''))
                                else (Inl (Error (Some ''Bad Request'')) :: thrown + bool))
                   (\<lambda>k. 1 / 2) 3) = 2
   \<and> length (delays (withRetry (\<lambda>k. if k = 0 then Inl (Error (Some ''429 Too Many Requests''))
                                else (Inl (Error (Some ''Bad Request'')) :: thrown + bool))
                   (\<lambda>k. 1 / 2) 3)) = 1
   \<and> result (withRetry (\<lambda>k. if k = 0 then Inl (Error (Some ''429 Too Many Requests''))
                                else (Inl (Error (Some ''Bad Request'')) :: thrown + bool))
                   (\<lambda>k. 1 / 2) 3) = Inl (Error (Some ''Bad Request''))"
proof -
  let ?fn = "\<lambda>k::nat. if k = 0 then Inl (Error (Some ''429 Too Many Requests''))
                                else (Inl (Error (Some ''Bad Request'')) :: thrown + bool)"
  let ?out = "withRetry ?fn (\<lambda>k. 1 / 2) 3"
  have q: "rateLimited (Error (Some ''429 Too Many Requests''))"
    by (simp add: rateLimited_def)
  have nq: "\<not> rateLimited (Error (Some ''Bad Request''))"
    by (simp add: rateLimited_def)
  have s0: "retries ?fn 3 0" using q by (simp add: retries_def)
  have s1: "\<not> retries ?fn 3 (Suc 0)" using nq by (simp add: retries_def)
  have made: "1 < attempts ?out"
    unfolding withRetry_def using retryLoop_step[OF s0, of "\<lambda>k. 1 / 2" Undefined "[]"]
      retryLoop_stop[OF s1, of "\<lambda>k. 1 / 2"]
    by simp
  have "attempts ?out = 1 + 1 \<and> length (delays ?out) = 1
        \<and> result ?out = Inl (if Error (Some ''Bad Request'') = Undefined then TypeError
                              else Error (Some ''Bad Request''))"
    using withRetry_fail_fast[of ?fn "\<lambda>k. 1 / 2" 3, THEN conjunct2, THEN conjunct2,
            rule_format, of 1 "Error (Some ''Bad Request'')"] made nq
    by simp
  then show ?thesis using made q nq by simp
qed

text \<open>
  Claim C4. With the default of three attempts and \<^verbatim>\<open>Math.random()\<close> in \<open>[0, 1)\<close>:
  rate-limited failures on attempts 1 and 2 and a success on attempt 3 give that success
  after exactly two delays, \<open>1000 * 2 ^ i\<close> plus a jitter in \<open>[0, 1000)\<close> for
  \<open>i = 0, 1\<close>, each at least 1000; rate-limited failures on all three attempts end the
  call after the third attempt with the last error thrown unchanged.
\<close>

theorem withRetry_third_attempt:
  assumes rnd: "\<forall>k. 0 \<le> random k \<and> random k < 1"
  shows "(rateLimited e0 \<and> rateLimited e1 \<and> fn 0 = Inl e0 \<and> fn 1 = Inl e1 \<and> fn 2 = Inr v \<longrightarrow>
            result (withRetry fn random 3) = Inr v \<and>
            attempts (withRetry fn random 3) = 3 \<and>
            delays (withRetry fn random 3) =
              [1000 * 2 ^ 0 + random 0 * 1000, 1000 * 2 ^ 1 + random 1 * 1000] \<and>
            (\<forall>d \<in> set (delays (withRetry fn random 3)). 1000 \<le> d) \<and>
            0 \<le> random 0 * 1000 \<and> random 0 * 1000 < 1000 \<and>
            0 \<le> random 1 * 1000 \<and> random 1 * 1000 < 1000)
       \<and> (rateLimited e0 \<and> rateLimited e1 \<and> rateLimited e2 \<and>
            fn 0 = Inl e0 \<and> fn 1 = Inl e1 \<and> fn 2 = Inl e2 \<longrightarrow>
            result (withRetry fn random 3) = Inl e2 \<and>
            attempts (withRetry fn random 3) = 3 \<and>
            length (delays (withRetry fn random 3)) = 2)"
proof -
  have r0: "0 \<le> random 0" "random 0 < 1" and r1: "0 \<le> random 1" "random 1 < 1"
    using rnd by auto
  have two: "retryLoop fn random 3 0 Undefined [] =
        retryLoop fn random 3 (Suc (Suc 0)) e1 [2 ^ 0 * 1000 + random 0 * 1000, 2 ^ 1 * 1000 + random 1 * 1000]"
    if "rateLimited e0" "rateLimited e1" "fn 0 = Inl e0" "fn 1 = Inl e1"
  proof -
    have s0: "retries fn 3 0" and s1: "retries fn 3 1"
      using that by (simp_all add: retries_iff)
    show ?thesis
      using that retryLoop_step[OF s0, of random Undefined "[]"]
            retryLoop_step[OF s1, of random e0 "[2 ^ 0 * 1000 + random 0 * 1000]"]
      by simp
  qed
  have last: "\<not> retries fn 3 (Suc (Suc 0))" by (simp add: retries_def)
  have f2: "fn (Suc (Suc 0)) = fn 2" by (simp add: numeral_2_eq_2)
  have a: "result (withRetry fn random 3) = Inr v \<and>
            attempts (withRetry fn random 3) = 3 \<and>
            delays (withRetry fn random 3) =
              [1000 * 2 ^ 0 + random 0 * 1000, 1000 * 2 ^ 1 + random 1 * 1000]"
    if "rateLimited e0" "rateLimited e1" "fn 0 = Inl e0" "fn 1 = Inl e1" "fn 2 = Inr v"
    using two[OF that(1-4)] that(5) retryLoop_stop[OF last, of random] f2
    by (simp add: withRetry_def settle_def)
  have b: "result (withRetry fn random 3) = Inl e2 \<and>
            attempts (withRetry fn random 3) = 3 \<and>
            length (delays (withRetry fn random 3)) = 2"
    if "rateLimited e0" "rateLimited e1" "rateLimited e2" "fn 0 = Inl e0" "fn 1 = Inl e1" "fn 2 = Inl e2"
  proof -
    have "e2 \<noteq> Undefined" using that(3) by (auto simp: rateLimited_def)
    then show ?thesis
      using two[OF that(1,2,4,5)] that(6) retryLoop_stop[OF last, of random] f2
      by (simp add: withRetry_def settle_def rethrown_eq)
  qed
  have j: "0 \<le> random 0 * 1000 \<and> random 0 * 1000 < 1000 \<and>
            0 \<le> random 1 * 1000 \<and> random 1 * 1000 < 1000"
    using r0 r1 by simp
  show ?thesis using a b j by auto
qed

theorem withRetry_third_attempt_witness:
  "(\<forall>k. (0::real) \<le> 1 / 2 \<and> (1::real) / 2 < 1)
   \<and> rateLimited (Error (Some ''429 Too Many Requests''))
   \<and> rateLimited (Error (Some ''RESOURCE_EXHAUSTED''))
   \<and> result (withRetry (\<lambda>k. if k < 2 then Inl (Error (Some ''429 Too Many Requests'')) else Inr True)
        (\<lambda>k. 1 / 2) 3) = Inr True
   \<and> delays (withRetry (\<lambda>k. if k < 2 then Inl (Error (Some ''429 Too Many Requests'')) else Inr True)
        (\<lambda>k. 1 / 2) 3) = [1500, 2500]
   \<and> result (withRetry (\<lambda>k. if k < 2 then Inl (Error (Some ''429 Too Many Requests''))
                             else (Inl (Error (Some ''RESOURCE_EXHAUSTED'')) :: thrown + bool))
        (\<lambda>k. 1 / 2) 3) = Inl (Error (Some ''RESOURCE_EXHAUSTED''))
   \<and> attempts (withRetry (\<lambda>k. if k < 2 then Inl (Error (Some ''429 Too Many Requests''))
                             else (Inl (Error (Some ''RESOURCE_EXHAUSTED'')) :: thrown + bool))
        (\<lambda>k. 1 / 2) 3) = 3"
proof -
  have rnd: "\<forall>k::nat. (0::real) \<le> (\<lambda>k. 1 / 2) k \<and> (\<lambda>k. 1 / 2) k < (1::real)" by simp
  have q1: "rateLimited (Error (Some ''429 Too Many Requests''))"
    by (simp add: rateLimited_def)
  have q2: "rateLimited (Error (Some ''RESOURCE_EXHAUSTED''))"
    by (simp add: rateLimited_def)
  show ?thesis
    using q1 q2
      withRetry_third_attempt[OF rnd,
        of "Error (Some ''429 Too Many Requests'')" "Error (Some ''429 Too Many Requests'')"
           "\<lambda>k. if k < 2 then Inl (Error (Some ''429 Too Many Requests'')) else Inr True" True]
      withRetry_third_attempt[OF rnd,
        of "Error (Some ''429 Too Many Requests'')" "Error (Some ''429 Too Many Requests'')"
           "\<lambda>k. if k < 2 then Inl (Error (Some ''429 Too Many Requests''))
                             else (Inl (Error (Some ''RESOURCE_EXHAUSTED'')) :: thrown + bool)" _
           "Error (Some ''RESOURCE_EXHAUSTED'')"]
    by simp
qed

section \<open>Properties of the flashcard deck\<close>

lemma jsRem_nonneg:
  "0 \<le> a \<Longrightarrow> 0 < b \<Longrightarrow> jsRem a b = Some (a mod b)"
  by (simp add: jsRem_def signed_modulo_int_def sgn_if)

text \<open>
  Claim C10. In a non-empty deck of length \<open>L\<close> with the index \<open>i\<close> in \<open>[0, L)\<close>,
  next moves the index to \<open>(i + 1) mod L\<close> and previous to \<open>(i - 1 + L) mod L\<close>; both
  stay in \<open>[0, L)\<close>, the deck is unchanged, and previous after next restores \<open>i\<close>.
\<close>

theorem flashcards_wrap:
  assumes "flashcards v \<noteq> []"
    and "FlashcardsView.currentIdx v = Some i"
    and "0 \<le> i" and "i < int (length (flashcards v))"
  shows "FlashcardsView.currentIdx (flashcardsHandleNext v)
           = Some ((i + 1) mod int (length (flashcards v)))
       \<and> FlashcardsView.currentIdx (flashcardsHandlePrev v)
           = Some ((i - 1 + int (length (flashcards v))) mod int (length (flashcards v)))
       \<and> 0 \<le> (i + 1) mod int (length (flashcards v))
       \<and> (i + 1) mod int (length (flashcards v)) < int (length (flashcards v))
       \<and> 0 \<le> (i - 1 + int (length (flashcards v))) mod int (length (flashcards v))
       \<and> (i - 1 + int (length (flashcards v))) mod int (length (flashcards v))
           < int (length (flashcards v))
       \<and> flashcards (flashcardsHandleNext v) = flashcards v
       \<and> flashcards (flashcardsHandlePrev v) = flashcards v
       \<and> FlashcardsView.currentIdx (flashcardsHandlePrev (flashcardsHandleNext v)) = Some i"
proof -
  let ?L = "int (length (flashcards v))"
  have L: "0 < ?L" using assms(1) by simp
  have n: "FlashcardsView.currentIdx (flashcardsHandleNext v) = Some ((i + 1) mod ?L)"
    using assms L by (simp add: flashcardsHandleNext_def jsRem_nonneg)
  have p: "FlashcardsView.currentIdx (flashcardsHandlePrev v) = Some ((i - 1 + ?L) mod ?L)"
    using assms L by (simp add: flashcardsHandlePrev_def jsRem_nonneg)
  have fn: "flashcards (flashcardsHandleNext v) = flashcards v"
    by (simp add: flashcardsHandleNext_def Let_def)
  have fp: "flashcards (flashcardsHandlePrev v) = flashcards v"
    by (simp add: flashcardsHandlePrev_def Let_def)
  have b: "0 \<le> (i + 1) mod ?L" "(i + 1) mod ?L < ?L"
          "0 \<le> (i - 1 + ?L) mod ?L" "(i - 1 + ?L) mod ?L < ?L"
    using L by simp_all
  have restore: "((i + 1) mod ?L - 1 + ?L) mod ?L = i"
  proof (cases "i + 1 = ?L")
    case True
    then have "(i + 1) mod ?L = 0" by simp
    moreover have "(0 - 1 + ?L) mod ?L = i" using True assms(3) by (simp add: True[symmetric])
    ultimately show ?thesis by simp
  next
    case False
    then have "i + 1 < ?L" using assms(4) by simp
    then have "(i + 1) mod ?L = i + 1" using assms(3) by simp
    then show ?thesis using assms(3,4) by simp
  qed
  have nn: "0 \<le> (i + 1) mod ?L - 1 + ?L" using b(1) L by linarith
  have step: "FlashcardsView.currentIdx (flashcardsHandlePrev (flashcardsHandleNext v))
      = jsRem ((i + 1) mod ?L - 1 + ?L) ?L"
    using n fn by (simp add: flashcardsHandlePrev_def Let_def)
  have pn: "FlashcardsView.currentIdx (flashcardsHandlePrev (flashcardsHandleNext v)) = Some i"
    unfolding step jsRem_nonneg[OF nn L] restore ..
  show ?thesis using n p fn fp b pn by simp
qed

theorem flashcards_wrap_witness:
  "flashcards \<lparr>flashcards = [\<lparr>flashcard_id = ''a'', front = ''f'', card_back = ''b''\<rparr>,
                      \<lparr>flashcard_id = ''b'', front = ''g'', card_back = ''c''\<rparr>],
       currentIdx = Some 1, isFlipped = True\<rparr> \<noteq> []
   \<and> FlashcardsView.currentIdx (flashcardsHandleNext
        \<lparr>flashcards = [\<lparr>flashcard_id = ''a'', front = ''f'', card_back = ''b''\<rparr>,
                      \<lparr>flashcard_id = ''b'', front = ''g'', card_back = ''c''\<rparr>],
       currentIdx = Some 1, isFlipped = True\<rparr>) = Some 0
   \<and> FlashcardsView.currentIdx (flashcardsHandlePrev (flashcardsHandleNext
        \<lparr>flashcards = [\<lparr>flashcard_id = ''a'', front = ''f'', card_back = ''b''\<rparr>,
                      \<lparr>flashcard_id = ''b'', front = ''g'', card_back = ''c''\<rparr>],
       currentIdx = Some 1, isFlipped = True\<rparr>)) = Some 1"
  using flashcards_wrap[of "\<lparr>flashcards = [\<lparr>flashcard_id = ''a'', front = ''f'', card_back = ''b''\<rparr>,
                      \<lparr>flashcard_id = ''b'', front = ''g'', card_back = ''c''\<rparr>],
       currentIdx = Some 1, isFlipped = True\<rparr>" 1]
  by simp

section \<open>Properties of the service functions\<close>

lemma callService_requests:
  "requests (snd (callService service e req w)) =
     requests w @ replicate (attempts (withRetry (\<lambda>i. service (length (requests w) + i) req)
                  (\<lambda>i. mathRandom e (length (timers w) + i)) 3)) req"
  by (simp add: callService_def Let_def)

lemma withRetry3_attempts:
  "0 < attempts (withRetry fn random 3) \<and> attempts (withRetry fn random 3) \<le> 3"
  using retryLoop_attempts[of 0 3 fn random Undefined "[]"] by (simp add: withRetry_def)

text \<open>
  Claim C6. For an adaptive regeneration with result \<open>(score, total)\<close>: if
  \<open>score < total / 2\<close> the prompt is the easier, fundamentals directive; if
  \<open>score = total\<close> it is the advanced, scenario-based directive; otherwise it is empty.
  The two directives are not empty and differ. The request's contents begin with the
  prompt, and every request that \<^verbatim>\<open>handleAdaptiveRetake\<close> sends (there is at least one)
  is the quiz request for the session's score and number of questions.
\<close>

theorem adaptive_directive:
  "(real score' < real total' / 2 \<longrightarrow>
      adaptivePrompt (Some (score', total')) = easierDirective score' total')
   \<and> (score' = total' \<longrightarrow>
      adaptivePrompt (Some (score', total')) = advancedDirective score' total')
   \<and> (\<not> real score' < real total' / 2 \<and> score' \<noteq> total' \<longrightarrow>
      adaptivePrompt (Some (score', total')) = [])
   \<and> easierDirective score' total' \<noteq> []
   \<and> advancedDirective score' total' \<noteq> []
   \<and> easierDirective score' total' \<noteq> advancedDirective score' total'
   \<and> contents (quizRequest t (Some (score', total')))
        = adaptivePrompt (Some (score', total')) @ quizBody t
   \<and> set (drop (length (requests w))
        (requests (snd (handleAdaptiveRetake e v w))))
        = {quizRequest (topic v) (Some (score v, length (questions v)))}
   \<and> take (length (requests w)) (requests (snd (handleAdaptiveRetake e v w))) = requests w"
proof -
  have a: "score' = total' \<longrightarrow> \<not> real score' < real total' / 2" by auto
  have ne: "easierDirective score' total' \<noteq> advancedDirective score' total'"
    by (simp add: easierDirective_def advancedDirective_def)
  let ?req = "quizRequest (topic v) (Some (score v, length (questions v)))"
  let ?w = "w\<lparr>invoked := invoked w @ [GenerateQuiz (topic v) (Some (score v, length (questions v)))]\<rparr>"
  let ?n = "attempts (withRetry (\<lambda>i. quizService e (length (requests ?w) + i) ?req)
                  (\<lambda>i. mathRandom e (length (timers ?w) + i)) 3)"
  have w': "snd (handleAdaptiveRetake e v w) = snd (generateQuiz e (topic v) (Some (score v, length (questions v))) w)"
    by (simp add: handleAdaptiveRetake_def Let_def split: prod.splits sum.splits)
  have r: "requests (snd (handleAdaptiveRetake e v w)) = requests w @ replicate ?n ?req"
    unfolding w' generateQuiz_def callService_requests by simp
  have n: "0 < ?n" using withRetry3_attempts by blast
  have s: "set (drop (length (requests w)) (requests (snd (handleAdaptiveRetake e v w)))) = {?req}"
    unfolding r using n by simp
  have t: "take (length (requests w)) (requests (snd (handleAdaptiveRetake e v w))) = requests w"
    unfolding r by simp
  show ?thesis
    using a ne s t
    by (simp add: quizRequest_def easierDirective_def advancedDirective_def)
qed

theorem adaptive_directive_witness:
  "real 0 < real 5 / 2
   \<and> adaptivePrompt (Some (0, 5)) =
       ''The student answered 0/5 questions incorrectly. Regenerate 5 easier questions focusing on fundamentals.''
   \<and> adaptivePrompt (Some (5, 5)) =
       ''The student answered 5/5 correctly. Generate 5 advanced-level application-based questions (scenario-based).''
   \<and> \<not> real 3 < real 5 / 2 \<and> (3::nat) \<noteq> 5
   \<and> adaptivePrompt (Some (3, 5)) = []"
proof -
  have e: "easierDirective 0 5 = ''The student answered 0/5 questions incorrectly. Regenerate 5 easier questions focusing on fundamentals.''"
    by (simp add: easierDirective_def showNat.simps)
  have a: "advancedDirective 5 5 = ''The student answered 5/5 correctly. Generate 5 advanced-level application-based questions (scenario-based).''"
    by (simp add: advancedDirective_def showNat.simps)
  have h1: "real 0 < real 5 / 2" by simp
  have h3: "\<not> real 3 < real 5 / 2 \<and> (3::nat) \<noteq> 5" by simp
  have c1: "adaptivePrompt (Some (0, 5)) = easierDirective 0 5"
    using adaptive_directive[of 0 5, THEN conjunct1] h1 by blast
  have c2: "adaptivePrompt (Some (5, 5)) = advancedDirective 5 5"
    using adaptive_directive[of 5 5, THEN conjunct2, THEN conjunct1] by blast
  have c3: "adaptivePrompt (Some (3, 5)) = []"
    using adaptive_directive[of 3 5, THEN conjunct2, THEN conjunct2, THEN conjunct1] h3 by blast
  show ?thesis using h1 h3 c1 c2 c3 e a by simp
qed

lemma callService_result:
  "fst (callService service e req w) =
     settle (service (length (requests w) + (attempts (withRetry (\<lambda>i. service (length (requests w) + i) req)
                  (\<lambda>i. mathRandom e (length (timers w) + i)) 3) - 1)) req)"
  using retryLoop_result[of 0 3 "\<lambda>i. service (length (requests w) + i) req"
      "\<lambda>i. mathRandom e (length (timers w) + i)" Undefined "[]"]
  by (simp add: callService_def Let_def withRetry_def)

lemma callService_first_success:
  assumes "service (length (requests w)) req = Inr x"
  shows "fst (callService service e req w) = Inr x"
    and "snd (callService service e req w) = w\<lparr>requests := requests w @ [req]\<rparr>"
proof -
  have "\<not> retries (\<lambda>i. service (length (requests w) + i) req) 3 0"
    using assms by (simp add: retries_def)
  from retryLoop_stop[OF this, of "\<lambda>i. mathRandom e (length (timers w) + i)" Undefined "[]"]
  have "withRetry (\<lambda>i. service (length (requests w) + i) req)
          (\<lambda>i. mathRandom e (length (timers w) + i)) 3
        = \<lparr>result = Inr x, attempts = 1, delays = []\<rparr>"
    using assms by (simp add: withRetry_def settle_def)
  then show "fst (callService service e req w) = Inr x"
    and "snd (callService service e req w) = w\<lparr>requests := requests w @ [req]\<rparr>"
    by (simp_all add: callService_def)
qed

lemma callService_first_failure:
  assumes "service (length (requests w)) req = Inl err" and "\<not> rateLimited err"
  shows "fst (callService service e req w) = Inl (rethrown err)"
    and "snd (callService service e req w) = w\<lparr>requests := requests w @ [req]\<rparr>"
proof -
  have "\<not> retries (\<lambda>i. service (length (requests w) + i) req) 3 0"
    using assms by (simp add: retries_def)
  from retryLoop_stop[OF this, of "\<lambda>i. mathRandom e (length (timers w) + i)" Undefined "[]"]
  have "withRetry (\<lambda>i. service (length (requests w) + i) req)
          (\<lambda>i. mathRandom e (length (timers w) + i)) 3
        = \<lparr>result = Inl (rethrown err), attempts = 1, delays = []\<rparr>"
    using assms by (simp add: withRetry_def settle_def)
  then show "fst (callService service e req w) = Inl (rethrown err)"
    and "snd (callService service e req w) = w\<lparr>requests := requests w @ [req]\<rparr>"
    by (simp_all add: callService_def)
qed

lemma internal_error_not_rate_limited:
  "\<not> rateLimited (Error (Some ''500 Internal error''))"
  "rethrown (Error (Some ''500 Internal error'')) = Error (Some ''500 Internal error'')"
  by (simp_all add: rateLimited_def rethrown_def)

section \<open>Properties of the quiz\<close>

text \<open>
  Selecting again before submitting overwrites the selection and changes nothing else:
  score, index and questions stay, and two selections in a row leave the state the
  second one alone would.
\<close>

theorem handleOptionClick_overwrites:
  "selectedOption (handleOptionClick b (handleOptionClick a v))
     = (if isAnswered v then selectedOption v else Some b)
   \<and> score (handleOptionClick b (handleOptionClick a v)) = score v
   \<and> currentIdx (handleOptionClick b (handleOptionClick a v)) = currentIdx v
   \<and> isAnswered (handleOptionClick b (handleOptionClick a v)) = isAnswered v
   \<and> questions (handleOptionClick b (handleOptionClick a v)) = questions v
   \<and> handleOptionClick b (handleOptionClick a v) = handleOptionClick b v"
  by (simp add: handleOptionClick_def)

text \<open>
  Advancing moves to the next question while there is one, and otherwise shows the
  results page. On the results page no option can be selected, nothing can be submitted
  and no further advance is offered: only the adaptive retake leaves it.
\<close>

theorem handleNext_completes:
  "(currentIdx v + 1 < length (questions v) \<longrightarrow>
      handleNext v = v\<lparr>currentIdx := currentIdx v + 1, selectedOption := None, isAnswered := False\<rparr>)
   \<and> (length (questions v) \<le> currentIdx v + 1 \<longrightarrow> handleNext v = v\<lparr>isFinishing := True\<rparr>)
   \<and> (isFinishing v \<longrightarrow>
         \<not> enabled v (Select option) \<and> \<not> enabled v Submit \<and> \<not> enabled v Advance)"
  by (auto simp: handleNext_def)

theorem handleNext_completes_witness:
  "currentIdx midwayView + 1 < length (questions midwayView)
   \<and> handleNext midwayView
       = midwayView\<lparr>currentIdx := 1, selectedOption := None, isAnswered := False\<rparr>
   \<and> length (questions (completedView\<lparr>isFinishing := False\<rparr>))
        \<le> currentIdx (completedView\<lparr>isFinishing := False\<rparr>) + 1
   \<and> handleNext (completedView\<lparr>isFinishing := False\<rparr>) = completedView
   \<and> isFinishing completedView
   \<and> \<not> enabled completedView (Select ''Heap sort'') \<and> \<not> enabled completedView Submit
   \<and> \<not> enabled completedView Advance"
proof -
  have a: "currentIdx midwayView + 1 < length (questions midwayView)"
    by (simp add: midwayView_def)
  have b: "length (questions (completedView\<lparr>isFinishing := False\<rparr>))
        \<le> currentIdx (completedView\<lparr>isFinishing := False\<rparr>) + 1"
    by (simp add: completedView_def)
  have c: "isFinishing completedView" by (simp add: completedView_def)
  have i: "currentIdx midwayView = 0" by (simp add: midwayView_def)
  have f: "completedView\<lparr>isFinishing := False\<rparr>\<lparr>isFinishing := True\<rparr> = completedView"
    by (simp add: completedView_def)
  show ?thesis
    using a b c i f
      handleNext_completes[of midwayView, THEN conjunct1]
      handleNext_completes[of "completedView\<lparr>isFinishing := False\<rparr>", THEN conjunct2, THEN conjunct1]
      handleNext_completes[of completedView "''Heap sort''", THEN conjunct2, THEN conjunct2]
    by simp
qed

text \<open>
  What \<^verbatim>\<open>handleSubmit\<close> does without a selection, and with a selection that is not the
  empty string: without one nothing changes; with one the question becomes answered and
  the score grows by 1 exactly when the selection equals the correct answer.
\<close>

theorem handleSubmit_scores_exact_match:
  "(selectedOption v = None \<longrightarrow> handleSubmit v = Inr v)
   \<and> (selectedOption v = Some sel \<and> sel \<noteq> [] \<and> currentQuestion v = Some q \<longrightarrow>
        handleSubmit v =
          Inr (v\<lparr>isAnswered := True,
                  score := (if sel = correct_answer q then score v + 1 else score v)\<rparr>))"
  by (simp add: handleSubmit_def falsy_def Let_def)

theorem handleSubmit_scores_exact_match_witness:
  "selectedOption (mount [sampleQuestion] sampleTopic) = None
   \<and> handleSubmit (mount [sampleQuestion] sampleTopic) = Inr (mount [sampleQuestion] sampleTopic)
   \<and> selectedOption midwayView = Some ''Heap sort''
   \<and> currentQuestion (midwayView\<lparr>isAnswered := False\<rparr>) = Some sampleQuestion
   \<and> handleSubmit (midwayView\<lparr>isAnswered := False\<rparr>) = Inr midwayView
   \<and> handleSubmit (midwayView\<lparr>isAnswered := False, selectedOption := Some ''Merge sort''\<rparr>)
       = Inr (midwayView\<lparr>selectedOption := Some ''Merge sort'', score := 1\<rparr>)"
proof -
  have n: "selectedOption (mount [sampleQuestion] sampleTopic) = None" by (simp add: mount_def)
  have s: "selectedOption (midwayView\<lparr>isAnswered := False\<rparr>) = Some ''Heap sort''"
    "selectedOption (midwayView\<lparr>isAnswered := False, selectedOption := Some ''Merge sort''\<rparr>)
       = Some ''Merge sort''"
    "selectedOption midwayView = Some ''Heap sort''"
    by (simp_all add: midwayView_def)
  have q: "currentQuestion (midwayView\<lparr>isAnswered := False\<rparr>) = Some sampleQuestion"
    "currentQuestion (midwayView\<lparr>isAnswered := False, selectedOption := Some ''Merge sort''\<rparr>)
       = Some sampleQuestion"
    by (simp_all add: midwayView_def currentQuestion_def)
  have c: "correct_answer sampleQuestion = ''Merge sort''" by (simp add: sampleQuestion_def)
  have m: "midwayView\<lparr>isAnswered := False\<rparr>\<lparr>isAnswered := True, score := score (midwayView\<lparr>isAnswered := False\<rparr>)\<rparr> = midwayView"
    "score (midwayView\<lparr>isAnswered := False, selectedOption := Some ''Merge sort''\<rparr>) = 0"
    "midwayView\<lparr>isAnswered := False, selectedOption := Some ''Merge sort''\<rparr>\<lparr>isAnswered := True, score := 1\<rparr>
      = midwayView\<lparr>selectedOption := Some ''Merge sort'', score := 1\<rparr>"
    by (simp_all add: midwayView_def)
  have a: "handleSubmit (mount [sampleQuestion] sampleTopic) = Inr (mount [sampleQuestion] sampleTopic)"
    using handleSubmit_scores_exact_match[of "mount [sampleQuestion] sampleTopic", THEN conjunct1] n
    by blast
  have b: "handleSubmit (midwayView\<lparr>isAnswered := False\<rparr>) = Inr midwayView"
    using handleSubmit_scores_exact_match[of "midwayView\<lparr>isAnswered := False\<rparr>" "''Heap sort''"
        sampleQuestion, THEN conjunct2] s(1) q(1) c m(1)
    by simp
  have d: "handleSubmit (midwayView\<lparr>isAnswered := False, selectedOption := Some ''Merge sort''\<rparr>)
       = Inr (midwayView\<lparr>selectedOption := Some ''Merge sort'', score := 1\<rparr>)"
    using handleSubmit_scores_exact_match[of
        "midwayView\<lparr>isAnswered := False, selectedOption := Some ''Merge sort''\<rparr>" "''Merge sort''"
        sampleQuestion, THEN conjunct2] s(2) q(2) c m(2,3)
    by simp
  show ?thesis using n a s(3) q(1) b d by blast
qed

text \<open>
  Claim C7, at a selection the guard \<^verbatim>\<open>!selectedOption\<close> takes for none. The question
  offers the empty string as an option, which is also its correct answer. The user
  selects it: the selection is recorded and equals the correct answer, yet
  \<^verbatim>\<open>handleSubmit\<close> returns at its guard, the state stays unanswered with score 0, and
  the submit button stays disabled.
\<close>

theorem handleSubmit_blank_selection:
  "enabled (mount [blankQuestion] sampleTopic) (Select [])
   \<and> selectedOption (handleOptionClick [] (mount [blankQuestion] sampleTopic)) = Some []
   \<and> Some (correct_answer blankQuestion)
        = selectedOption (handleOptionClick [] (mount [blankQuestion] sampleTopic))
   \<and> handleSubmit (handleOptionClick [] (mount [blankQuestion] sampleTopic))
        = Inr (handleOptionClick [] (mount [blankQuestion] sampleTopic))
   \<and> \<not> isAnswered (handleOptionClick [] (mount [blankQuestion] sampleTopic))
   \<and> score (handleOptionClick [] (mount [blankQuestion] sampleTopic)) = 0
   \<and> \<not> enabled (handleOptionClick [] (mount [blankQuestion] sampleTopic)) Submit"
  by (simp add: mount_def blankQuestion_def handleOptionClick_def handleSubmit_def falsy_def
        currentQuestion_def)

lemma generateQuiz_result_world:
  "handleAdaptiveRetake e v w =
     (case fst (generateQuiz e (topic v) (Some (score v, length (questions v))) w) of
        Inr resp \<Rightarrow>
          [v\<lparr>isAdapting := True\<rparr>,
           v\<lparr>isAdapting := True, questions := quiz resp\<rparr>,
           v\<lparr>isAdapting := True, questions := quiz resp, currentIdx := 0\<rparr>,
           v\<lparr>isAdapting := True, questions := quiz resp, currentIdx := 0, selectedOption := None\<rparr>,
           v\<lparr>isAdapting := True, questions := quiz resp, currentIdx := 0, selectedOption := None,
             isAnswered := False\<rparr>,
           v\<lparr>isAdapting := True, questions := quiz resp, currentIdx := 0, selectedOption := None,
             isAnswered := False, score := 0\<rparr>,
           v\<lparr>isAdapting := True, questions := quiz resp, currentIdx := 0, selectedOption := None,
             isAnswered := False, score := 0, isFinishing := False\<rparr>,
           v\<lparr>isAdapting := False, questions := quiz resp, currentIdx := 0, selectedOption := None,
             isAnswered := False, score := 0, isFinishing := False\<rparr>]
      | Inl err \<Rightarrow> [v\<lparr>isAdapting := True\<rparr>, v\<lparr>isAdapting := False\<rparr>],
      snd (generateQuiz e (topic v) (Some (score v, length (questions v))) w))"
  by (simp add: handleAdaptiveRetake_def Let_def split: prod.splits sum.splits)

text \<open>
  Claim C9. On the results page with the adaptive button enabled: if the regeneration
  succeeds, the component ends in the state of a freshly mounted quiz over the new
  questions (index 0, no selection, not answered, score 0, not finished); if it fails,
  the component ends in the state it started from, and every state on the way differs
  from it in the \<^verbatim>\<open>isAdapting\<close> flag only.
\<close>

theorem adaptiveRetake_atomic:
  assumes "enabled v AdaptiveRetake"
  shows "(fst (generateQuiz e (topic v) (Some (score v, length (questions v))) w) = Inr resp \<longrightarrow>
            last (fst (handleAdaptiveRetake e v w)) = mount (quiz resp) (topic v))
       \<and> (fst (generateQuiz e (topic v) (Some (score v, length (questions v))) w) = Inl err \<longrightarrow>
            last (fst (handleAdaptiveRetake e v w)) = v
            \<and> (\<forall>f \<in> set (fst (handleAdaptiveRetake e v w)). f\<lparr>isAdapting := False\<rparr> = v))"
proof -
  have fin: "isFinishing v" and idle: "\<not> isAdapting v" using assms by simp_all
  have same: "v\<lparr>isAdapting := False\<rparr> = v" using idle by (cases v) simp
  have ok: "last (fst (handleAdaptiveRetake e v w)) = mount (quiz resp) (topic v)"
    if "fst (generateQuiz e (topic v) (Some (score v, length (questions v))) w) = Inr resp"
    using that by (cases v) (simp add: generateQuiz_result_world mount_def)
  have ko: "last (fst (handleAdaptiveRetake e v w)) = v
            \<and> (\<forall>f \<in> set (fst (handleAdaptiveRetake e v w)). f\<lparr>isAdapting := False\<rparr> = v)"
    if "fst (generateQuiz e (topic v) (Some (score v, length (questions v))) w) = Inl err"
    using that same by (simp add: generateQuiz_result_world)
  show ?thesis using ok ko by blast
qed

theorem adaptiveRetake_atomic_witness:
  "enabled completedView AdaptiveRetake
   \<and> fst (generateQuiz calmEnv (topic completedView)
            (Some (score completedView, length (questions completedView))) freshWorld)
        = Inr \<lparr>quiz = [sampleQuestion]\<rparr>
   \<and> last (fst (handleAdaptiveRetake calmEnv completedView freshWorld))
        = mount [sampleQuestion] sampleTopic
   \<and> fst (generateQuiz quizDownEnv (topic completedView)
            (Some (score completedView, length (questions completedView))) freshWorld)
        = Inl (Error (Some ''500 Internal error''))
   \<and> last (fst (handleAdaptiveRetake quizDownEnv completedView freshWorld)) = completedView"
proof -
  have en: "enabled completedView AdaptiveRetake" by (simp add: completedView_def)
  have ok: "fst (generateQuiz calmEnv (topic completedView)
            (Some (score completedView, length (questions completedView))) freshWorld)
        = Inr \<lparr>quiz = [sampleQuestion]\<rparr>"
    unfolding generateQuiz_def
    by (rule callService_first_success) (simp add: calmEnv_def)
  have ko: "fst (generateQuiz quizDownEnv (topic completedView)
            (Some (score completedView, length (questions completedView))) freshWorld)
        = Inl (Error (Some ''500 Internal error''))"
    unfolding generateQuiz_def
    using callService_first_failure(1)[of "quizService quizDownEnv" _ _ "Error (Some ''500 Internal error'')"]
      internal_error_not_rate_limited
    by (simp add: quizDownEnv_def calmEnv_def)
  have t: "topic completedView = sampleTopic" by (simp add: completedView_def)
  show ?thesis
    using en ok ko
      adaptiveRetake_atomic[OF en, of calmEnv freshWorld "\<lparr>quiz = [sampleQuestion]\<rparr>"]
      adaptiveRetake_atomic[OF en, of quizDownEnv freshWorld _ "Error (Some ''500 Internal error'')"]
    by (simp add: t)
qed

section \<open>Properties of the pipeline\<close>

lemma isQuotaError_defined:
  "err \<noteq> Undefined \<Longrightarrow> isQuotaError err = Inr (rateLimited err)"
proof (cases err)
  case Undefined
  then show "err \<noteq> Undefined \<Longrightarrow> ?thesis" by simp
next
  case (Error m)
  then show ?thesis by (cases m) (simp_all add: rateLimited_def)
qed

lemma callService_never_undefined:
  "fst (callService service e req w) \<noteq> Inl Undefined"
  by (simp add: callService_result settle_def rethrown_eq TypeError_def split: sum.splits)

lemma callService_world:
  "invoked (snd (callService service e req w)) = invoked w"
  "alerts (snd (callService service e req w)) = alerts w"
  by (simp_all add: callService_def Let_def)

lemma stage_invoked:
  "invoked (snd (generateGeneralSummary e text w)) = invoked w @ [GenerateGeneralSummary text]"
  "invoked (snd (extractKnowledgeGraph e text w)) = invoked w @ [ExtractKnowledgeGraph text]"
  "invoked (snd (extractTopics e text w)) = invoked w @ [ExtractTopics text]"
  "invoked (snd (generateQuiz e t ctx w)) = invoked w @ [GenerateQuiz t ctx]"
  by (simp_all add: generateGeneralSummary_def extractKnowledgeGraph_def extractTopics_def
        generateQuiz_def callService_world)

lemma stage_alerts:
  "alerts (snd (generateGeneralSummary e text w)) = alerts w"
  "alerts (snd (extractKnowledgeGraph e text w)) = alerts w"
  "alerts (snd (extractTopics e text w)) = alerts w"
  by (simp_all add: generateGeneralSummary_def extractKnowledgeGraph_def extractTopics_def
        callService_world)

lemma stage_never_undefined:
  "fst (generateGeneralSummary e text w) \<noteq> Inl Undefined"
  "fst (extractKnowledgeGraph e text w) \<noteq> Inl Undefined"
  "fst (extractTopics e text w) \<noteq> Inl Undefined"
  by (simp_all add: generateGeneralSummary_def extractKnowledgeGraph_def extractTopics_def
        callService_never_undefined)

lemma pipelineCatch_defined:
  "err \<noteq> Undefined \<Longrightarrow>
   pipelineCatch err frames app w =
     (None, frames @ [app\<lparr>appState := IDLE\<rparr>], w\<lparr>alerts := alerts w @ [failureAlert err]\<rparr>)"
  by (simp add: pipelineCatch_def isQuotaError_defined failureAlert_def)

lemma runPipeline_summary_fails:
  assumes "trim text \<noteq> []" and "generateGeneralSummary e text w = (Inl err, w1)"
  shows "runPipeline e text app w =
     (None,
      [app\<lparr>appState := ANALYZING\<rparr>,
       app\<lparr>appState := ANALYZING, loadingMsg := ''Distilling Core Intelligence...''\<rparr>,
       app\<lparr>appState := IDLE, loadingMsg := ''Distilling Core Intelligence...''\<rparr>],
      w1\<lparr>alerts := alerts w1 @ [failureAlert err]\<rparr>)"
proof -
  have "err \<noteq> Undefined" using stage_never_undefined(1)[of e "text" w] assms(2) by auto
  then show ?thesis using assms by (simp add: runPipeline_def Let_def pipelineCatch_defined)
qed

lemma runPipeline_graph_fails:
  assumes "trim text \<noteq> []" and "generateGeneralSummary e text w = (Inr s, w1)"
    and "extractKnowledgeGraph e text w1 = (Inl err, w2)"
  shows "runPipeline e text app w =
     (None,
      [app\<lparr>appState := ANALYZING\<rparr>,
       app\<lparr>appState := ANALYZING, loadingMsg := ''Distilling Core Intelligence...''\<rparr>,
       app\<lparr>appState := ANALYZING, loadingMsg := ''Distilling Core Intelligence...'',
           summaryData := Some s\<rparr>,
       app\<lparr>appState := ANALYZING, loadingMsg := ''Mapping Semantic Relationships...'',
           summaryData := Some s\<rparr>,
       app\<lparr>appState := IDLE, loadingMsg := ''Mapping Semantic Relationships...'',
           summaryData := Some s\<rparr>],
      w2\<lparr>alerts := alerts w2 @ [failureAlert err]\<rparr>)"
proof -
  have "err \<noteq> Undefined" using stage_never_undefined(2)[of e "text" w1] assms(3) by auto
  then show ?thesis using assms by (simp add: runPipeline_def Let_def pipelineCatch_defined)
qed

lemma runPipeline_topics_fails:
  assumes "trim text \<noteq> []" and "generateGeneralSummary e text w = (Inr s, w1)"
    and "extractKnowledgeGraph e text w1 = (Inr g, w2)"
    and "extractTopics e text w2 = (Inl err, w3)"
  shows "runPipeline e text app w =
     (None,
      [app\<lparr>appState := ANALYZING\<rparr>,
       app\<lparr>appState := ANALYZING, loadingMsg := ''Distilling Core Intelligence...''\<rparr>,
       app\<lparr>appState := ANALYZING, loadingMsg := ''Distilling Core Intelligence...'',
           summaryData := Some s\<rparr>,
       app\<lparr>appState := ANALYZING, loadingMsg := ''Mapping Semantic Relationships...'',
           summaryData := Some s\<rparr>,
       app\<lparr>appState := ANALYZING, loadingMsg := ''Mapping Semantic Relationships...'',
           summaryData := Some s, kgData := Some g\<rparr>,
       app\<lparr>appState := ANALYZING, loadingMsg := ''Deconstructing Lecture Architecture...'',
           summaryData := Some s, kgData := Some g\<rparr>,
       app\<lparr>appState := IDLE, loadingMsg := ''Deconstructing Lecture Architecture...'',
           summaryData := Some s, kgData := Some g\<rparr>],
      w3\<lparr>alerts := alerts w3 @ [failureAlert err]\<rparr>)"
proof -
  have "err \<noteq> Undefined" using stage_never_undefined(3)[of e "text" w2] assms(4) by auto
  then show ?thesis using assms by (simp add: runPipeline_def Let_def pipelineCatch_defined)
qed

lemma runPipeline_succeeds:
  assumes "trim text \<noteq> []" and "generateGeneralSummary e text w = (Inr s, w1)"
    and "extractKnowledgeGraph e text w1 = (Inr g, w2)"
    and "extractTopics e text w2 = (Inr t, w3)"
  shows "runPipeline e text app w =
     (None,
      [app\<lparr>appState := ANALYZING\<rparr>,
       app\<lparr>appState := ANALYZING, loadingMsg := ''Distilling Core Intelligence...''\<rparr>,
       app\<lparr>appState := ANALYZING, loadingMsg := ''Distilling Core Intelligence...'',
           summaryData := Some s\<rparr>,
       app\<lparr>appState := ANALYZING, loadingMsg := ''Mapping Semantic Relationships...'',
           summaryData := Some s\<rparr>,
       app\<lparr>appState := ANALYZING, loadingMsg := ''Mapping Semantic Relationships...'',
           summaryData := Some s, kgData := Some g\<rparr>,
       app\<lparr>appState := ANALYZING, loadingMsg := ''Deconstructing Lecture Architecture...'',
           summaryData := Some s, kgData := Some g\<rparr>,
       app\<lparr>appState := ANALYZING, loadingMsg := ''Deconstructing Lecture Architecture...'',
           summaryData := Some s, kgData := Some g, topics := TopicExtractionResponse.topics t\<rparr>,
       app\<lparr>appState := SUMMARY_VIEW, loadingMsg := ''Deconstructing Lecture Architecture...'',
           summaryData := Some s, kgData := Some g, topics := TopicExtractionResponse.topics t\<rparr>],
      w3)"
  using assms by (simp add: runPipeline_def Let_def)

lemma summary_first_success:
  assumes "summaryService e (length (requests w)) (summaryRequest text) = Inr s"
  shows "generateGeneralSummary e text w =
     (Inr s, w\<lparr>invoked := invoked w @ [GenerateGeneralSummary text],
              requests := requests w @ [summaryRequest text]\<rparr>)"
  unfolding generateGeneralSummary_def
  using callService_first_success[of "summaryService e"
      "w\<lparr>invoked := invoked w @ [GenerateGeneralSummary text]\<rparr>" "summaryRequest text" s e] assms
  by (simp add: prod_eq_iff)

lemma graph_first_success:
  assumes "graphService e (length (requests w)) (graphRequest text) = Inr g"
  shows "extractKnowledgeGraph e text w =
     (Inr g, w\<lparr>invoked := invoked w @ [ExtractKnowledgeGraph text],
              requests := requests w @ [graphRequest text]\<rparr>)"
  unfolding extractKnowledgeGraph_def
  using callService_first_success[of "graphService e"
      "w\<lparr>invoked := invoked w @ [ExtractKnowledgeGraph text]\<rparr>" "graphRequest text" g e] assms
  by (simp add: prod_eq_iff)

lemma graph_first_failure:
  assumes "graphService e (length (requests w)) (graphRequest text) = Inl err"
    and "\<not> rateLimited err"
  shows "extractKnowledgeGraph e text w =
     (Inl (rethrown err), w\<lparr>invoked := invoked w @ [ExtractKnowledgeGraph text],
              requests := requests w @ [graphRequest text]\<rparr>)"
  unfolding extractKnowledgeGraph_def
  using callService_first_failure[of "graphService e"
      "w\<lparr>invoked := invoked w @ [ExtractKnowledgeGraph text]\<rparr>" "graphRequest text" err e] assms
  by (simp add: prod_eq_iff)

lemma topics_first_success:
  assumes "topicService e (length (requests w)) (topicsRequest text) = Inr t"
  shows "extractTopics e text w =
     (Inr t, w\<lparr>invoked := invoked w @ [ExtractTopics text],
              requests := requests w @ [topicsRequest text]\<rparr>)"
  unfolding extractTopics_def
  using callService_first_success[of "topicService e"
      "w\<lparr>invoked := invoked w @ [ExtractTopics text]\<rparr>" "topicsRequest text" t e] assms
  by (simp add: prod_eq_iff)

lemma quiz_first_success:
  assumes "quizService e (length (requests w)) (quizRequest t ctx) = Inr resp"
  shows "generateQuiz e t ctx w =
     (Inr resp, w\<lparr>invoked := invoked w @ [GenerateQuiz t ctx],
              requests := requests w @ [quizRequest t ctx]\<rparr>)"
  unfolding generateQuiz_def
  using callService_first_success[of "quizService e"
      "w\<lparr>invoked := invoked w @ [GenerateQuiz t ctx]\<rparr>" "quizRequest t ctx" resp e] assms
  by (simp add: prod_eq_iff)

lemma trim_T: "trim ''T'' \<noteq> []"
  by (simp add: trim_def isWhiteSpace_def)

lemma graphDown_summary:
  "generateGeneralSummary graphDownEnv ''T'' freshWorld =
     (Inr sampleSummary,
      freshWorld\<lparr>invoked := [GenerateGeneralSummary ''T''], requests := [summaryRequest ''T'']\<rparr>)"
  using summary_first_success[of graphDownEnv freshWorld "''T''" sampleSummary]
  by (simp add: graphDownEnv_def calmEnv_def freshWorld_def)

lemma graphDown_graph:
  "extractKnowledgeGraph graphDownEnv ''T''
     (freshWorld\<lparr>invoked := [GenerateGeneralSummary ''T''], requests := [summaryRequest ''T'']\<rparr>) =
     (Inl (Error (Some ''500 Internal error'')),
      freshWorld\<lparr>invoked := [GenerateGeneralSummary ''T'', ExtractKnowledgeGraph ''T''],
                 requests := [summaryRequest ''T'', graphRequest ''T'']\<rparr>)"
  using graph_first_failure[of graphDownEnv
      "freshWorld\<lparr>invoked := [GenerateGeneralSummary ''T''], requests := [summaryRequest ''T'']\<rparr>"
      "''T''" "Error (Some ''500 Internal error'')"]
    internal_error_not_rate_limited
  by (simp add: graphDownEnv_def calmEnv_def freshWorld_def)

lemma callService_all_rate_limited:
  assumes "rateLimited err"
    and "service (length (requests w)) req = Inl err"
    and "service (length (requests w) + 1) req = Inl err"
    and "service (length (requests w) + 2) req = Inl err"
  shows "callService service e req w =
     (Inl err,
      w\<lparr>requests := requests w @ [req, req, req],
        timers := timers w @ [1000 + mathRandom e (length (timers w)) * 1000,
                              2000 + mathRandom e (length (timers w) + 1) * 1000]\<rparr>)"
proof -
  let ?fn = "\<lambda>i. service (length (requests w) + i) req"
  let ?rnd = "\<lambda>i. mathRandom e (length (timers w) + i)"
  have s0: "retries ?fn 3 0" and s1: "retries ?fn 3 (Suc 0)"
    using assms by (simp_all add: retries_iff)
  have s2: "\<not> retries ?fn 3 (Suc (Suc 0))" by (simp add: retries_def)
  have f2: "?fn (Suc (Suc 0)) = Inl err" using assms(4) by (simp add: numeral_2_eq_2)
  have u: "err \<noteq> Undefined" using assms(1) by (auto simp: rateLimited_def)
  have "withRetry ?fn ?rnd 3 =
      \<lparr>result = Inl err, attempts = 3,
       delays = [1000 + mathRandom e (length (timers w)) * 1000,
                 2000 + mathRandom e (length (timers w) + 1) * 1000]\<rparr>"
    unfolding withRetry_def
    using retryLoop_step[OF s0, of ?rnd Undefined "[]"]
      retryLoop_step[OF s1, of ?rnd err "[2 ^ 0 * 1000 + ?rnd 0 * 1000]"]
      retryLoop_stop[OF s2, of ?rnd err
        "[2 ^ 0 * 1000 + ?rnd 0 * 1000, 2 ^ 1 * 1000 + ?rnd 1 * 1000]"]
      assms(2,3) f2 u
    by (simp add: settle_def rethrown_eq)
  then show ?thesis
    by (simp add: callService_def numeral_3_eq_3)
qed

lemma summaryDown_summary:
  "generateGeneralSummary summaryDownEnv ''T'' freshWorld =
     (Inl (Error None),
      freshWorld\<lparr>invoked := [GenerateGeneralSummary ''T''], requests := [summaryRequest ''T'']\<rparr>)"
proof -
  have n: "\<not> rateLimited (Error None)" "rethrown (Error None) = Error None"
    by (simp_all add: rateLimited_def rethrown_def)
  show ?thesis
    unfolding generateGeneralSummary_def
    using callService_first_failure[of "summaryService summaryDownEnv"
        "freshWorld\<lparr>invoked := invoked freshWorld @ [GenerateGeneralSummary ''T'']\<rparr>"
        "summaryRequest ''T''" "Error None" summaryDownEnv] n
    by (simp add: prod_eq_iff summaryDownEnv_def calmEnv_def freshWorld_def)
qed

lemma throttled_rate_limited: "rateLimited (Error (Some ''429 RESOURCE_EXHAUSTED''))"
  by (simp add: rateLimited_def)

lemma throttled_summary:
  "generateGeneralSummary topicsThrottledEnv ''T'' freshWorld =
     (Inr sampleSummary,
      freshWorld\<lparr>invoked := [GenerateGeneralSummary ''T''], requests := [summaryRequest ''T'']\<rparr>)"
  using summary_first_success[of topicsThrottledEnv freshWorld "''T''" sampleSummary]
  by (simp add: topicsThrottledEnv_def calmEnv_def freshWorld_def)

lemma throttled_graph:
  "extractKnowledgeGraph topicsThrottledEnv ''T''
     (freshWorld\<lparr>invoked := [GenerateGeneralSummary ''T''], requests := [summaryRequest ''T'']\<rparr>) =
     (Inr sampleGraph,
      freshWorld\<lparr>invoked := [GenerateGeneralSummary ''T'', ExtractKnowledgeGraph ''T''],
                 requests := [summaryRequest ''T'', graphRequest ''T'']\<rparr>)"
  using graph_first_success[of topicsThrottledEnv
      "freshWorld\<lparr>invoked := [GenerateGeneralSummary ''T''], requests := [summaryRequest ''T'']\<rparr>"
      "''T''" sampleGraph]
  by (simp add: topicsThrottledEnv_def calmEnv_def freshWorld_def)

lemma throttled_topics:
  "extractTopics topicsThrottledEnv ''T''
     (freshWorld\<lparr>invoked := [GenerateGeneralSummary ''T'', ExtractKnowledgeGraph ''T''],
                 requests := [summaryRequest ''T'', graphRequest ''T'']\<rparr>) =
     (Inl (Error (Some ''429 RESOURCE_EXHAUSTED'')),
      freshWorld\<lparr>invoked := [GenerateGeneralSummary ''T'', ExtractKnowledgeGraph ''T'',
                             ExtractTopics ''T''],
                 requests := [summaryRequest ''T'', graphRequest ''T'', topicsRequest ''T'',
                              topicsRequest ''T'', topicsRequest ''T''],
                 timers := [1500, 2500]\<rparr>)"
  unfolding extractTopics_def
  using callService_all_rate_limited[OF throttled_rate_limited,
      of "topicService topicsThrottledEnv"
      "freshWorld\<lparr>invoked := [GenerateGeneralSummary ''T'', ExtractKnowledgeGraph ''T''],
                 requests := [summaryRequest ''T'', graphRequest ''T'']\<rparr>
        \<lparr>invoked := invoked (freshWorld\<lparr>invoked := [GenerateGeneralSummary ''T'', ExtractKnowledgeGraph ''T''],
                 requests := [summaryRequest ''T'', graphRequest ''T'']\<rparr>) @ [ExtractTopics ''T'']\<rparr>"
      "topicsRequest ''T''" topicsThrottledEnv]
  by (simp add: topicsThrottledEnv_def calmEnv_def freshWorld_def)

text \<open>
  Claim C1, as the code has it. When a stage of a run on non-blank text fails, the run
  ends there: the stages after the failing one are not invoked, one alert names the
  failure class, \<^verbatim>\<open>appState\<close> ends as \<^verbatim>\<open>IDLE\<close> (the upload form is shown, which reads no
  artifact), and no state set on the way has \<^verbatim>\<open>appState = SUMMARY_VIEW\<close>. The artifacts
  of the stages that succeeded are not discarded: \<^verbatim>\<open>summaryData\<close> and \<^verbatim>\<open>kgData\<close> keep
  what those stages returned, and the fields of the stages that did not succeed keep
  what they held before the run.
\<close>

theorem runPipeline_failure:
  assumes "trim text \<noteq> []" and "run = runPipeline e text app w"
  shows
   "(generateGeneralSummary e text w = (Inl err, w1) \<longrightarrow>
       fst run = None
       \<and> invoked (snd (snd run)) = invoked w @ [GenerateGeneralSummary text]
       \<and> alerts (snd (snd run)) = alerts w @ [failureAlert err]
       \<and> (\<forall>a \<in> set (fst (snd run)). appState a \<noteq> SUMMARY_VIEW)
       \<and> finalApp app run =
           app\<lparr>appState := IDLE, loadingMsg := ''Distilling Core Intelligence...''\<rparr>
       \<and> render (finalApp app run) = UploadForm)
    \<and> (generateGeneralSummary e text w = (Inr s, w1)
        \<and> extractKnowledgeGraph e text w1 = (Inl err, w2) \<longrightarrow>
       fst run = None
       \<and> invoked (snd (snd run)) =
           invoked w @ [GenerateGeneralSummary text, ExtractKnowledgeGraph text]
       \<and> alerts (snd (snd run)) = alerts w @ [failureAlert err]
       \<and> (\<forall>a \<in> set (fst (snd run)). appState a \<noteq> SUMMARY_VIEW)
       \<and> finalApp app run =
           app\<lparr>appState := IDLE, loadingMsg := ''Mapping Semantic Relationships...'',
               summaryData := Some s\<rparr>
       \<and> render (finalApp app run) = UploadForm)
    \<and> (generateGeneralSummary e text w = (Inr s, w1)
        \<and> extractKnowledgeGraph e text w1 = (Inr g, w2)
        \<and> extractTopics e text w2 = (Inl err, w3) \<longrightarrow>
       fst run = None
       \<and> invoked (snd (snd run)) =
           invoked w @ [GenerateGeneralSummary text, ExtractKnowledgeGraph text, ExtractTopics text]
       \<and> alerts (snd (snd run)) = alerts w @ [failureAlert err]
       \<and> (\<forall>a \<in> set (fst (snd run)). appState a \<noteq> SUMMARY_VIEW)
       \<and> finalApp app run =
           app\<lparr>appState := IDLE, loadingMsg := ''Deconstructing Lecture Architecture...'',
               summaryData := Some s, kgData := Some g\<rparr>
       \<and> render (finalApp app run) = UploadForm)"
proof -
  have c1: "fst run = None
       \<and> invoked (snd (snd run)) = invoked w @ [GenerateGeneralSummary text]
       \<and> alerts (snd (snd run)) = alerts w @ [failureAlert err]
       \<and> (\<forall>a \<in> set (fst (snd run)). appState a \<noteq> SUMMARY_VIEW)
       \<and> finalApp app run =
           app\<lparr>appState := IDLE, loadingMsg := ''Distilling Core Intelligence...''\<rparr>
       \<and> render (finalApp app run) = UploadForm"
    if h: "generateGeneralSummary e text w = (Inl err, w1)"
  proof -
    have i: "invoked w1 = invoked w @ [GenerateGeneralSummary text]" and a: "alerts w1 = alerts w"
      using stage_invoked(1)[of e "text" w] stage_alerts(1)[of e "text" w] h by simp_all
    show ?thesis
      using i a by (simp add: assms(2) runPipeline_summary_fails[OF assms(1) h] finalApp_def render_def)
  qed
  have c2: "fst run = None
       \<and> invoked (snd (snd run)) =
           invoked w @ [GenerateGeneralSummary text, ExtractKnowledgeGraph text]
       \<and> alerts (snd (snd run)) = alerts w @ [failureAlert err]
       \<and> (\<forall>a \<in> set (fst (snd run)). appState a \<noteq> SUMMARY_VIEW)
       \<and> finalApp app run =
           app\<lparr>appState := IDLE, loadingMsg := ''Mapping Semantic Relationships...'',
               summaryData := Some s\<rparr>
       \<and> render (finalApp app run) = UploadForm"
    if h: "generateGeneralSummary e text w = (Inr s, w1)"
       "extractKnowledgeGraph e text w1 = (Inl err, w2)"
  proof -
    have i: "invoked w2 = invoked w @ [GenerateGeneralSummary text, ExtractKnowledgeGraph text]"
      and a: "alerts w2 = alerts w"
      using stage_invoked(1)[of e "text" w] stage_alerts(1)[of e "text" w]
        stage_invoked(2)[of e "text" w1] stage_alerts(2)[of e "text" w1] h by simp_all
    show ?thesis
      using i a by (simp add: assms(2) runPipeline_graph_fails[OF assms(1) h] finalApp_def render_def)
  qed
  have c3: "fst run = None
       \<and> invoked (snd (snd run)) =
           invoked w @ [GenerateGeneralSummary text, ExtractKnowledgeGraph text, ExtractTopics text]
       \<and> alerts (snd (snd run)) = alerts w @ [failureAlert err]
       \<and> (\<forall>a \<in> set (fst (snd run)). appState a \<noteq> SUMMARY_VIEW)
       \<and> finalApp app run =
           app\<lparr>appState := IDLE, loadingMsg := ''Deconstructing Lecture Architecture...'',
               summaryData := Some s, kgData := Some g\<rparr>
       \<and> render (finalApp app run) = UploadForm"
    if h: "generateGeneralSummary e text w = (Inr s, w1)"
       "extractKnowledgeGraph e text w1 = (Inr g, w2)"
       "extractTopics e text w2 = (Inl err, w3)"
  proof -
    have i: "invoked w3 = invoked w @ [GenerateGeneralSummary text, ExtractKnowledgeGraph text,
                ExtractTopics text]"
      and a: "alerts w3 = alerts w"
      using stage_invoked(1)[of e "text" w] stage_alerts(1)[of e "text" w]
        stage_invoked(2)[of e "text" w1] stage_alerts(2)[of e "text" w1]
        stage_invoked(3)[of e "text" w2] stage_alerts(3)[of e "text" w2] h by simp_all
    show ?thesis
      using i a by (simp add: assms(2) runPipeline_topics_fails[OF assms(1) h] finalApp_def render_def)
  qed
  show ?thesis
    using c1 c2 c3 by blast
qed

theorem runPipeline_failure_witness:
  "trim ''T'' \<noteq> []
   \<and> fst (generateGeneralSummary summaryDownEnv ''T'' freshWorld) = Inl (Error None)
   \<and> invoked (snd (snd (runPipeline summaryDownEnv ''T'' initialApp freshWorld)))
        = [GenerateGeneralSummary ''T'']
   \<and> alerts (snd (snd (runPipeline summaryDownEnv ''T'' initialApp freshWorld)))
        = [''Analysis failed. Please try again with different content.'']
   \<and> finalApp initialApp (runPipeline summaryDownEnv ''T'' initialApp freshWorld)
        = initialApp\<lparr>loadingMsg := ''Distilling Core Intelligence...''\<rparr>
   \<and> fst (generateGeneralSummary graphDownEnv ''T'' freshWorld) = Inr sampleSummary
   \<and> fst (extractKnowledgeGraph graphDownEnv ''T''
            (snd (generateGeneralSummary graphDownEnv ''T'' freshWorld)))
        = Inl (Error (Some ''500 Internal error''))
   \<and> invoked (snd (snd (runPipeline graphDownEnv ''T'' initialApp freshWorld)))
        = [GenerateGeneralSummary ''T'', ExtractKnowledgeGraph ''T'']
   \<and> alerts (snd (snd (runPipeline graphDownEnv ''T'' initialApp freshWorld)))
        = [''Analysis failed. Please try again with different content.'']
   \<and> finalApp initialApp (runPipeline graphDownEnv ''T'' initialApp freshWorld)
        = initialApp\<lparr>loadingMsg := ''Mapping Semantic Relationships...'',
                     summaryData := Some sampleSummary\<rparr>
   \<and> render (finalApp initialApp (runPipeline graphDownEnv ''T'' initialApp freshWorld)) = UploadForm
   \<and> fst (extractTopics topicsThrottledEnv ''T''
            (snd (extractKnowledgeGraph topicsThrottledEnv ''T''
               (snd (generateGeneralSummary topicsThrottledEnv ''T'' freshWorld)))))
        = Inl (Error (Some ''429 RESOURCE_EXHAUSTED''))
   \<and> invoked (snd (snd (runPipeline topicsThrottledEnv ''T'' initialApp freshWorld)))
        = [GenerateGeneralSummary ''T'', ExtractKnowledgeGraph ''T'', ExtractTopics ''T'']
   \<and> alerts (snd (snd (runPipeline topicsThrottledEnv ''T'' initialApp freshWorld)))
        = [''API Quota Exceeded. Please wait a minute and try again. Switch to a paid key for higher limits.'']
   \<and> finalApp initialApp (runPipeline topicsThrottledEnv ''T'' initialApp freshWorld)
        = initialApp\<lparr>loadingMsg := ''Deconstructing Lecture Architecture...'',
                     summaryData := Some sampleSummary, kgData := Some sampleGraph\<rparr>"
proof -
  have idle: "initialApp\<lparr>appState := IDLE\<rparr> = initialApp" by (simp add: initialApp_def)
  have fa: "failureAlert (Error (Some ''500 Internal error''))
      = ''Analysis failed. Please try again with different content.''"
    "failureAlert (Error None) = ''Analysis failed. Please try again with different content.''"
    "failureAlert (Error (Some ''429 RESOURCE_EXHAUSTED''))
      = ''API Quota Exceeded. Please wait a minute and try again. Switch to a paid key for higher limits.''"
    using internal_error_not_rate_limited(1) throttled_rate_limited
    by (simp_all add: failureAlert_def rateLimited_def)
  have fw: "invoked freshWorld = []" "alerts freshWorld = []" by (simp_all add: freshWorld_def)
  have up: "render (initialApp\<lparr>loadingMsg := ''Mapping Semantic Relationships...'',
                     summaryData := Some sampleSummary\<rparr>) = UploadForm"
    by (simp add: render_def initialApp_def)
  have a: "invoked (snd (snd (runPipeline summaryDownEnv ''T'' initialApp freshWorld)))
        = [GenerateGeneralSummary ''T'']
   \<and> alerts (snd (snd (runPipeline summaryDownEnv ''T'' initialApp freshWorld)))
        = [''Analysis failed. Please try again with different content.'']
   \<and> finalApp initialApp (runPipeline summaryDownEnv ''T'' initialApp freshWorld)
        = initialApp\<lparr>loadingMsg := ''Distilling Core Intelligence...''\<rparr>"
    using runPipeline_failure[where e = summaryDownEnv and app = initialApp and w = freshWorld,
        OF trim_T refl, THEN conjunct1, rule_format, OF summaryDown_summary] idle fa fw
    by simp
  have b: "invoked (snd (snd (runPipeline graphDownEnv ''T'' initialApp freshWorld)))
        = [GenerateGeneralSummary ''T'', ExtractKnowledgeGraph ''T'']
   \<and> alerts (snd (snd (runPipeline graphDownEnv ''T'' initialApp freshWorld)))
        = [''Analysis failed. Please try again with different content.'']
   \<and> finalApp initialApp (runPipeline graphDownEnv ''T'' initialApp freshWorld)
        = initialApp\<lparr>loadingMsg := ''Mapping Semantic Relationships...'',
                     summaryData := Some sampleSummary\<rparr>
   \<and> render (finalApp initialApp (runPipeline graphDownEnv ''T'' initialApp freshWorld)) = UploadForm"
    using runPipeline_failure[where e = graphDownEnv and app = initialApp and w = freshWorld,
        OF trim_T refl, THEN conjunct2, THEN conjunct1, rule_format, OF conjI,
        OF graphDown_summary graphDown_graph] idle fa fw up
    by simp
  have c: "invoked (snd (snd (runPipeline topicsThrottledEnv ''T'' initialApp freshWorld)))
        = [GenerateGeneralSummary ''T'', ExtractKnowledgeGraph ''T'', ExtractTopics ''T'']
   \<and> alerts (snd (snd (runPipeline topicsThrottledEnv ''T'' initialApp freshWorld)))
        = [''API Quota Exceeded. Please wait a minute and try again. Switch to a paid key for higher limits.'']
   \<and> finalApp initialApp (runPipeline topicsThrottledEnv ''T'' initialApp freshWorld)
        = initialApp\<lparr>loadingMsg := ''Deconstructing Lecture Architecture...'',
                     summaryData := Some sampleSummary, kgData := Some sampleGraph\<rparr>"
    using runPipeline_failure[where e = topicsThrottledEnv and app = initialApp and w = freshWorld,
        OF trim_T refl, THEN conjunct2, THEN conjunct2, rule_format, OF conjI,
        OF throttled_summary conjI, OF throttled_graph throttled_topics] idle fa fw
    by simp
  show ?thesis
    using a b c up trim_T summaryDown_summary graphDown_summary graphDown_graph
      throttled_summary throttled_graph throttled_topics
    by simp
qed

text \<open>
  Claim C1 as stated fails: Summary succeeds, KnowledgeGraph fails with an error that is
  not a rate limit, and the state the run ends in is \<^verbatim>\<open>IDLE\<close> but still holds the
  summary, which the state before the run did not.
\<close>

theorem runPipeline_keeps_partial_artifacts:
  "fst (generateGeneralSummary graphDownEnv ''T'' freshWorld) = Inr sampleSummary
   \<and> fst (extractKnowledgeGraph graphDownEnv ''T''
            (snd (generateGeneralSummary graphDownEnv ''T'' freshWorld)))
        = Inl (Error (Some ''500 Internal error''))
   \<and> summaryData initialApp = None
   \<and> appState (finalApp initialApp (runPipeline graphDownEnv ''T'' initialApp freshWorld)) = IDLE
   \<and> summaryData (finalApp initialApp (runPipeline graphDownEnv ''T'' initialApp freshWorld))
        = Some sampleSummary"
  using graphDown_summary graphDown_graph
  by (simp add: runPipeline_graph_fails[OF trim_T graphDown_summary graphDown_graph]
        finalApp_def initialApp_def)

lemma stage_requests:
  "\<exists>n. 0 < n \<and> n \<le> 3 \<and>
     requests (snd (generateGeneralSummary e text w)) = requests w @ replicate n (summaryRequest text)"
  "\<exists>n. 0 < n \<and> n \<le> 3 \<and>
     requests (snd (extractKnowledgeGraph e text w)) = requests w @ replicate n (graphRequest text)"
  "\<exists>n. 0 < n \<and> n \<le> 3 \<and>
     requests (snd (extractTopics e text w)) = requests w @ replicate n (topicsRequest text)"
  unfolding generateGeneralSummary_def extractKnowledgeGraph_def extractTopics_def
    callService_requests
  using withRetry3_attempts by fastforce+

lemma trim_blank: "trim '' '' = []"
  by (simp add: trim_def isWhiteSpace_def)

lemma calm_summary:
  "generateGeneralSummary calmEnv ''T'' freshWorld =
     (Inr sampleSummary,
      freshWorld\<lparr>invoked := [GenerateGeneralSummary ''T''], requests := [summaryRequest ''T'']\<rparr>)"
  using summary_first_success[of calmEnv freshWorld "''T''" sampleSummary]
  by (simp add: calmEnv_def freshWorld_def)

lemma calm_graph:
  "extractKnowledgeGraph calmEnv ''T''
     (freshWorld\<lparr>invoked := [GenerateGeneralSummary ''T''], requests := [summaryRequest ''T'']\<rparr>) =
     (Inr sampleGraph,
      freshWorld\<lparr>invoked := [GenerateGeneralSummary ''T'', ExtractKnowledgeGraph ''T''],
                 requests := [summaryRequest ''T'', graphRequest ''T'']\<rparr>)"
  using graph_first_success[of calmEnv
      "freshWorld\<lparr>invoked := [GenerateGeneralSummary ''T''], requests := [summaryRequest ''T'']\<rparr>"
      "''T''" sampleGraph]
  by (simp add: calmEnv_def freshWorld_def)

lemma calm_topics:
  "extractTopics calmEnv ''T''
     (freshWorld\<lparr>invoked := [GenerateGeneralSummary ''T'', ExtractKnowledgeGraph ''T''],
                 requests := [summaryRequest ''T'', graphRequest ''T'']\<rparr>) =
     (Inr \<lparr>TopicExtractionResponse.topics = [sampleTopic]\<rparr>,
      freshWorld\<lparr>invoked := [GenerateGeneralSummary ''T'', ExtractKnowledgeGraph ''T'',
                             ExtractTopics ''T''],
                 requests := [summaryRequest ''T'', graphRequest ''T'', topicsRequest ''T'']\<rparr>)"
  using topics_first_success[of calmEnv
      "freshWorld\<lparr>invoked := [GenerateGeneralSummary ''T'', ExtractKnowledgeGraph ''T''],
                 requests := [summaryRequest ''T'', graphRequest ''T'']\<rparr>"
      "''T''" "\<lparr>TopicExtractionResponse.topics = [sampleTopic]\<rparr>"]
  by (simp add: calmEnv_def freshWorld_def)

lemma trim_blank_lines: "trim [CHR 0x0A, CHR 0x20] = []"
  by (simp add: trim_def isWhiteSpace_def)

text \<open>
  Claim C5, as the code has it. On every blank text (empty after \<^verbatim>\<open>trim\<close>, so also
  a text of white space only) \<^verbatim>\<open>runPipeline\<close> returns at its guard: no stage is invoked,
  no request is sent and no state is set. On every other text the stage functions are
  invoked in the order Summary, KnowledgeGraph, Topics, each with the raw text, up to and
  including the first one that fails and no further: if Summary fails only Summary was
  invoked and only its requests were sent; if KnowledgeGraph is the first to fail only
  those two were invoked; if Topics is the first to fail all three were. In each case the
  requests of the run are those of the stages invoked, grouped by stage in that order (one
  to three per stage), so every request of a stage was sent before the first request of
  the next one. The run ends with \<^verbatim>\<open>appState = SUMMARY_VIEW\<close> if and only if all three
  stages succeed; the state it ends in then holds the three artifacts the stages returned
  and is the only state set during the run that has \<^verbatim>\<open>appState = SUMMARY_VIEW\<close>.
\<close>


theorem runPipeline_sequence:
  assumes "run = runPipeline e text app w"
  shows
   "(trim text = [] \<longrightarrow> run = (None, [], w) \<and> finalApp app run = app)
    \<and> (trim text \<noteq> [] \<longrightarrow>
        (generateGeneralSummary e text w = (Inl err, w1) \<longrightarrow>
           invoked (snd (snd run)) = invoked w @ [GenerateGeneralSummary text]
           \<and> (\<exists>n1. 0 < n1 \<and> n1 \<le> 3 \<and>
                 requests (snd (snd run)) = requests w @ replicate n1 (summaryRequest text)))
        \<and> (generateGeneralSummary e text w = (Inr s, w1)
            \<and> extractKnowledgeGraph e text w1 = (Inl err, w2) \<longrightarrow>
           invoked (snd (snd run)) =
             invoked w @ [GenerateGeneralSummary text, ExtractKnowledgeGraph text]
           \<and> (\<exists>n1 n2. 0 < n1 \<and> n1 \<le> 3 \<and> 0 < n2 \<and> n2 \<le> 3 \<and>
                 requests w1 = requests w @ replicate n1 (summaryRequest text)
                 \<and> requests (snd (snd run)) = requests w1 @ replicate n2 (graphRequest text)))
        \<and> (generateGeneralSummary e text w = (Inr s, w1)
            \<and> extractKnowledgeGraph e text w1 = (Inr g, w2)
            \<and> extractTopics e text w2 = (Inl err, w3) \<longrightarrow>
           invoked (snd (snd run)) =
             invoked w @ [GenerateGeneralSummary text, ExtractKnowledgeGraph text, ExtractTopics text]
           \<and> (\<exists>n1 n2 n3. 0 < n1 \<and> n1 \<le> 3 \<and> 0 < n2 \<and> n2 \<le> 3 \<and> 0 < n3 \<and> n3 \<le> 3 \<and>
                 requests w1 = requests w @ replicate n1 (summaryRequest text)
                 \<and> requests w2 = requests w1 @ replicate n2 (graphRequest text)
                 \<and> requests (snd (snd run)) = requests w2 @ replicate n3 (topicsRequest text)))
        \<and> (generateGeneralSummary e text w = (Inr s, w1)
            \<and> extractKnowledgeGraph e text w1 = (Inr g, w2)
            \<and> extractTopics e text w2 = (Inr t, w3) \<longrightarrow>
           fst run = None
           \<and> snd (snd run) = w3
           \<and> invoked w3 =
               invoked w @ [GenerateGeneralSummary text, ExtractKnowledgeGraph text, ExtractTopics text]
           \<and> (\<exists>n1 n2 n3. 0 < n1 \<and> n1 \<le> 3 \<and> 0 < n2 \<and> n2 \<le> 3 \<and> 0 < n3 \<and> n3 \<le> 3 \<and>
                 requests w1 = requests w @ replicate n1 (summaryRequest text)
                 \<and> requests w2 = requests w1 @ replicate n2 (graphRequest text)
                 \<and> requests w3 = requests w2 @ replicate n3 (topicsRequest text))
           \<and> finalApp app run =
               app\<lparr>appState := SUMMARY_VIEW,
                   loadingMsg := ''Deconstructing Lecture Architecture...'',
                   summaryData := Some s, kgData := Some g,
                   topics := TopicExtractionResponse.topics t\<rparr>)
        \<and> ((appState (finalApp app run) = SUMMARY_VIEW) =
             (\<exists>s w1 g w2 t w3.
                generateGeneralSummary e text w = (Inr s, w1)
                \<and> extractKnowledgeGraph e text w1 = (Inr g, w2)
                \<and> extractTopics e text w2 = (Inr t, w3)))
        \<and> (\<forall>a \<in> set (fst (snd run)). appState a = SUMMARY_VIEW \<longrightarrow> a = finalApp app run))"
proof -
  have blank: "run = (None, [], w) \<and> finalApp app run = app" if "trim text = []"
    using that by (simp add: assms runPipeline_def finalApp_def)
  have c1: "invoked (snd (snd run)) = invoked w @ [GenerateGeneralSummary text]
           \<and> (\<exists>n1. 0 < n1 \<and> n1 \<le> 3 \<and>
                 requests (snd (snd run)) = requests w @ replicate n1 (summaryRequest text))"
    if nb: "trim text \<noteq> []" and h: "generateGeneralSummary e text w = (Inl err, w1)"
  proof -
    have i: "invoked w1 = invoked w @ [GenerateGeneralSummary text]"
      using stage_invoked(1)[of e "text" w] h by simp
    have r: "\<exists>n1. 0 < n1 \<and> n1 \<le> 3 \<and> requests w1 = requests w @ replicate n1 (summaryRequest text)"
      using stage_requests(1)[of e "text" w] h by simp
    show ?thesis
      using i r by (simp add: assms runPipeline_summary_fails[OF nb h])
  qed
  have c2: "invoked (snd (snd run)) =
             invoked w @ [GenerateGeneralSummary text, ExtractKnowledgeGraph text]
           \<and> (\<exists>n1 n2. 0 < n1 \<and> n1 \<le> 3 \<and> 0 < n2 \<and> n2 \<le> 3 \<and>
                 requests w1 = requests w @ replicate n1 (summaryRequest text)
                 \<and> requests (snd (snd run)) = requests w1 @ replicate n2 (graphRequest text))"
    if nb: "trim text \<noteq> []" and h: "generateGeneralSummary e text w = (Inr s, w1)"
       "extractKnowledgeGraph e text w1 = (Inl err, w2)"
  proof -
    have i: "invoked w2 = invoked w @ [GenerateGeneralSummary text, ExtractKnowledgeGraph text]"
      using stage_invoked(1)[of e "text" w] stage_invoked(2)[of e "text" w1] h by simp
    obtain n1 where n1: "0 < n1" "n1 \<le> 3"
        "requests w1 = requests w @ replicate n1 (summaryRequest text)"
      using stage_requests(1)[of e "text" w] h(1) by auto
    obtain n2 where n2: "0 < n2" "n2 \<le> 3"
        "requests w2 = requests w1 @ replicate n2 (graphRequest text)"
      using stage_requests(2)[of e "text" w1] h(2) by auto
    have r: "\<exists>n1 n2. 0 < n1 \<and> n1 \<le> 3 \<and> 0 < n2 \<and> n2 \<le> 3 \<and>
                 requests w1 = requests w @ replicate n1 (summaryRequest text)
                 \<and> requests w2 = requests w1 @ replicate n2 (graphRequest text)"
      using n1 n2 by blast
    show ?thesis
      using i r by (simp add: assms runPipeline_graph_fails[OF nb h])
  qed
  have c3: "invoked (snd (snd run)) =
             invoked w @ [GenerateGeneralSummary text, ExtractKnowledgeGraph text, ExtractTopics text]
           \<and> (\<exists>n1 n2 n3. 0 < n1 \<and> n1 \<le> 3 \<and> 0 < n2 \<and> n2 \<le> 3 \<and> 0 < n3 \<and> n3 \<le> 3 \<and>
                 requests w1 = requests w @ replicate n1 (summaryRequest text)
                 \<and> requests w2 = requests w1 @ replicate n2 (graphRequest text)
                 \<and> requests (snd (snd run)) = requests w2 @ replicate n3 (topicsRequest text))"
    if nb: "trim text \<noteq> []" and h: "generateGeneralSummary e text w = (Inr s, w1)"
       "extractKnowledgeGraph e text w1 = (Inr g, w2)"
       "extractTopics e text w2 = (Inl err, w3)"
  proof -
    have i: "invoked w3 =
        invoked w @ [GenerateGeneralSummary text, ExtractKnowledgeGraph text, ExtractTopics text]"
      using stage_invoked(1)[of e "text" w] stage_invoked(2)[of e "text" w1]
        stage_invoked(3)[of e "text" w2] h by simp
    obtain n1 where n1: "0 < n1" "n1 \<le> 3"
        "requests w1 = requests w @ replicate n1 (summaryRequest text)"
      using stage_requests(1)[of e "text" w] h(1) by auto
    obtain n2 where n2: "0 < n2" "n2 \<le> 3"
        "requests w2 = requests w1 @ replicate n2 (graphRequest text)"
      using stage_requests(2)[of e "text" w1] h(2) by auto
    obtain n3 where n3: "0 < n3" "n3 \<le> 3"
        "requests w3 = requests w2 @ replicate n3 (topicsRequest text)"
      using stage_requests(3)[of e "text" w2] h(3) by auto
    have r: "\<exists>n1 n2 n3. 0 < n1 \<and> n1 \<le> 3 \<and> 0 < n2 \<and> n2 \<le> 3 \<and> 0 < n3 \<and> n3 \<le> 3 \<and>
                 requests w1 = requests w @ replicate n1 (summaryRequest text)
                 \<and> requests w2 = requests w1 @ replicate n2 (graphRequest text)
                 \<and> requests w3 = requests w2 @ replicate n3 (topicsRequest text)"
      using n1 n2 n3 by blast
    show ?thesis
      using i r by (simp add: assms runPipeline_topics_fails[OF nb h])
  qed
  have c4: "fst run = None
           \<and> snd (snd run) = w3
           \<and> invoked w3 =
               invoked w @ [GenerateGeneralSummary text, ExtractKnowledgeGraph text, ExtractTopics text]
           \<and> (\<exists>n1 n2 n3. 0 < n1 \<and> n1 \<le> 3 \<and> 0 < n2 \<and> n2 \<le> 3 \<and> 0 < n3 \<and> n3 \<le> 3 \<and>
                 requests w1 = requests w @ replicate n1 (summaryRequest text)
                 \<and> requests w2 = requests w1 @ replicate n2 (graphRequest text)
                 \<and> requests w3 = requests w2 @ replicate n3 (topicsRequest text))
           \<and> finalApp app run =
               app\<lparr>appState := SUMMARY_VIEW,
                   loadingMsg := ''Deconstructing Lecture Architecture...'',
                   summaryData := Some s, kgData := Some g,
                   topics := TopicExtractionResponse.topics t\<rparr>"
    if nb: "trim text \<noteq> []" and h: "generateGeneralSummary e text w = (Inr s, w1)"
       "extractKnowledgeGraph e text w1 = (Inr g, w2)"
       "extractTopics e text w2 = (Inr t, w3)"
  proof -
    have i: "invoked w3 =
        invoked w @ [GenerateGeneralSummary text, ExtractKnowledgeGraph text, ExtractTopics text]"
      using stage_invoked(1)[of e "text" w] stage_invoked(2)[of e "text" w1]
        stage_invoked(3)[of e "text" w2] h by simp
    obtain n1 where n1: "0 < n1" "n1 \<le> 3"
        "requests w1 = requests w @ replicate n1 (summaryRequest text)"
      using stage_requests(1)[of e "text" w] h(1) by auto
    obtain n2 where n2: "0 < n2" "n2 \<le> 3"
        "requests w2 = requests w1 @ replicate n2 (graphRequest text)"
      using stage_requests(2)[of e "text" w1] h(2) by auto
    obtain n3 where n3: "0 < n3" "n3 \<le> 3"
        "requests w3 = requests w2 @ replicate n3 (topicsRequest text)"
      using stage_requests(3)[of e "text" w2] h(3) by auto
    have r: "\<exists>n1 n2 n3. 0 < n1 \<and> n1 \<le> 3 \<and> 0 < n2 \<and> n2 \<le> 3 \<and> 0 < n3 \<and> n3 \<le> 3 \<and>
                 requests w1 = requests w @ replicate n1 (summaryRequest text)
                 \<and> requests w2 = requests w1 @ replicate n2 (graphRequest text)
                 \<and> requests w3 = requests w2 @ replicate n3 (topicsRequest text)"
      using n1 n2 n3 by blast
    have f: "fst run = None \<and> snd (snd run) = w3
           \<and> finalApp app run =
               app\<lparr>appState := SUMMARY_VIEW,
                   loadingMsg := ''Deconstructing Lecture Architecture...'',
                   summaryData := Some s, kgData := Some g,
                   topics := TopicExtractionResponse.topics t\<rparr>"
      by (simp add: assms runPipeline_succeeds[OF nb h] finalApp_def)
    show ?thesis using i r f by blast
  qed
  have c5: "((appState (finalApp app run) = SUMMARY_VIEW) =
             (\<exists>s w1 g w2 t w3.
                generateGeneralSummary e text w = (Inr s, w1)
                \<and> extractKnowledgeGraph e text w1 = (Inr g, w2)
                \<and> extractTopics e text w2 = (Inr t, w3)))
        \<and> (\<forall>a \<in> set (fst (snd run)). appState a = SUMMARY_VIEW \<longrightarrow> a = finalApp app run)"
    if nb: "trim text \<noteq> []"
  proof -
    obtain r1 v1 where p1: "generateGeneralSummary e text w = (r1, v1)" by fastforce
    obtain r2 v2 where p2: "extractKnowledgeGraph e text v1 = (r2, v2)" by fastforce
    obtain r3 v3 where p3: "extractTopics e text v2 = (r3, v3)" by fastforce
    show ?thesis
    proof (cases r1)
      case (Inl err)
      then show ?thesis
        using p1
        by (auto simp: assms runPipeline_summary_fails[OF nb p1[unfolded Inl]] finalApp_def)
    next
      case s: (Inr s')
      show ?thesis
      proof (cases r2)
        case (Inl err)
        then show ?thesis
          using p1 p2 s
          by (auto simp: assms
                runPipeline_graph_fails[OF nb p1[unfolded s] p2[unfolded Inl]] finalApp_def)
      next
        case g: (Inr g')
        show ?thesis
        proof (cases r3)
          case (Inl err)
          then show ?thesis
            using p1 p2 p3 s g
            by (auto simp: assms
                  runPipeline_topics_fails[OF nb p1[unfolded s] p2[unfolded g] p3[unfolded Inl]]
                  finalApp_def)
        next
          case t: (Inr t')
          show ?thesis
            using p1 p2 p3 s g t
            by (auto simp: assms
                  runPipeline_succeeds[OF nb p1[unfolded s] p2[unfolded g] p3[unfolded t]]
                  finalApp_def)
        qed
      qed
    qed
  qed
  have nonblank: "(generateGeneralSummary e text w = (Inl err, w1) \<longrightarrow>
           invoked (snd (snd run)) = invoked w @ [GenerateGeneralSummary text]
           \<and> (\<exists>n1. 0 < n1 \<and> n1 \<le> 3 \<and>
                 requests (snd (snd run)) = requests w @ replicate n1 (summaryRequest text)))
        \<and> (generateGeneralSummary e text w = (Inr s, w1)
            \<and> extractKnowledgeGraph e text w1 = (Inl err, w2) \<longrightarrow>
           invoked (snd (snd run)) =
             invoked w @ [GenerateGeneralSummary text, ExtractKnowledgeGraph text]
           \<and> (\<exists>n1 n2. 0 < n1 \<and> n1 \<le> 3 \<and> 0 < n2 \<and> n2 \<le> 3 \<and>
                 requests w1 = requests w @ replicate n1 (summaryRequest text)
                 \<and> requests (snd (snd run)) = requests w1 @ replicate n2 (graphRequest text)))
        \<and> (generateGeneralSummary e text w = (Inr s, w1)
            \<and> extractKnowledgeGraph e text w1 = (Inr g, w2)
            \<and> extractTopics e text w2 = (Inl err, w3) \<longrightarrow>
           invoked (snd (snd run)) =
             invoked w @ [GenerateGeneralSummary text, ExtractKnowledgeGraph text, ExtractTopics text]
           \<and> (\<exists>n1 n2 n3. 0 < n1 \<and> n1 \<le> 3 \<and> 0 < n2 \<and> n2 \<le> 3 \<and> 0 < n3 \<and> n3 \<le> 3 \<and>
                 requests w1 = requests w @ replicate n1 (summaryRequest text)
                 \<and> requests w2 = requests w1 @ replicate n2 (graphRequest text)
                 \<and> requests (snd (snd run)) = requests w2 @ replicate n3 (topicsRequest text)))
        \<and> (generateGeneralSummary e text w = (Inr s, w1)
            \<and> extractKnowledgeGraph e text w1 = (Inr g, w2)
            \<and> extractTopics e text w2 = (Inr t, w3) \<longrightarrow>
           fst run = None
           \<and> snd (snd run) = w3
           \<and> invoked w3 =
               invoked w @ [GenerateGeneralSummary text, ExtractKnowledgeGraph text, ExtractTopics text]
           \<and> (\<exists>n1 n2 n3. 0 < n1 \<and> n1 \<le> 3 \<and> 0 < n2 \<and> n2 \<le> 3 \<and> 0 < n3 \<and> n3 \<le> 3 \<and>
                 requests w1 = requests w @ replicate n1 (summaryRequest text)
                 \<and> requests w2 = requests w1 @ replicate n2 (graphRequest text)
                 \<and> requests w3 = requests w2 @ replicate n3 (topicsRequest text))
           \<and> finalApp app run =
               app\<lparr>appState := SUMMARY_VIEW,
                   loadingMsg := ''Deconstructing Lecture Architecture...'',
                   summaryData := Some s, kgData := Some g,
                   topics := TopicExtractionResponse.topics t\<rparr>)
        \<and> ((appState (finalApp app run) = SUMMARY_VIEW) =
             (\<exists>s w1 g w2 t w3.
                generateGeneralSummary e text w = (Inr s, w1)
                \<and> extractKnowledgeGraph e text w1 = (Inr g, w2)
                \<and> extractTopics e text w2 = (Inr t, w3)))
        \<and> (\<forall>a \<in> set (fst (snd run)). appState a = SUMMARY_VIEW \<longrightarrow> a = finalApp app run)"
    if nb: "trim text \<noteq> []"
  proof (intro conjI impI)
    show "invoked (snd (snd run)) = invoked w @ [GenerateGeneralSummary text]"
      if "generateGeneralSummary e text w = (Inl err, w1)"
      using c1[OF nb that] by (rule conjunct1)
    show "\<exists>n1. 0 < n1 \<and> n1 \<le> 3 \<and>
                 requests (snd (snd run)) = requests w @ replicate n1 (summaryRequest text)"
      if "generateGeneralSummary e text w = (Inl err, w1)"
      using c1[OF nb that] by (rule conjunct2)
  next
    assume h: "generateGeneralSummary e text w = (Inr s, w1)
            \<and> extractKnowledgeGraph e text w1 = (Inl err, w2)"
    show "invoked (snd (snd run)) =
             invoked w @ [GenerateGeneralSummary text, ExtractKnowledgeGraph text]"
      using c2[OF nb h[THEN conjunct1] h[THEN conjunct2]] by (rule conjunct1)
    show "\<exists>n1 n2. 0 < n1 \<and> n1 \<le> 3 \<and> 0 < n2 \<and> n2 \<le> 3 \<and>
                 requests w1 = requests w @ replicate n1 (summaryRequest text)
                 \<and> requests (snd (snd run)) = requests w1 @ replicate n2 (graphRequest text)"
      using c2[OF nb h[THEN conjunct1] h[THEN conjunct2]] by (rule conjunct2)
  next
    assume h: "generateGeneralSummary e text w = (Inr s, w1)
            \<and> extractKnowledgeGraph e text w1 = (Inr g, w2)
            \<and> extractTopics e text w2 = (Inl err, w3)"
    note c = c3[OF nb h[THEN conjunct1] h[THEN conjunct2, THEN conjunct1]
        h[THEN conjunct2, THEN conjunct2]]
    show "invoked (snd (snd run)) =
             invoked w @ [GenerateGeneralSummary text, ExtractKnowledgeGraph text, ExtractTopics text]"
      using c by (rule conjunct1)
    show "\<exists>n1 n2 n3. 0 < n1 \<and> n1 \<le> 3 \<and> 0 < n2 \<and> n2 \<le> 3 \<and> 0 < n3 \<and> n3 \<le> 3 \<and>
                 requests w1 = requests w @ replicate n1 (summaryRequest text)
                 \<and> requests w2 = requests w1 @ replicate n2 (graphRequest text)
                 \<and> requests (snd (snd run)) = requests w2 @ replicate n3 (topicsRequest text)"
      using c by (rule conjunct2)
  next
    assume h: "generateGeneralSummary e text w = (Inr s, w1)
            \<and> extractKnowledgeGraph e text w1 = (Inr g, w2)
            \<and> extractTopics e text w2 = (Inr t, w3)"
    note c = c4[OF nb h[THEN conjunct1] h[THEN conjunct2, THEN conjunct1]
        h[THEN conjunct2, THEN conjunct2]]
    show "fst run = None" using c by (rule conjunct1)
    show "snd (snd run) = w3" using c[THEN conjunct2] by (rule conjunct1)
    show "invoked w3 =
               invoked w @ [GenerateGeneralSummary text, ExtractKnowledgeGraph text, ExtractTopics text]"
      using c[THEN conjunct2, THEN conjunct2] by (rule conjunct1)
    show "\<exists>n1 n2 n3. 0 < n1 \<and> n1 \<le> 3 \<and> 0 < n2 \<and> n2 \<le> 3 \<and> 0 < n3 \<and> n3 \<le> 3 \<and>
                 requests w1 = requests w @ replicate n1 (summaryRequest text)
                 \<and> requests w2 = requests w1 @ replicate n2 (graphRequest text)
                 \<and> requests w3 = requests w2 @ replicate n3 (topicsRequest text)"
      using c[THEN conjunct2, THEN conjunct2, THEN conjunct2] by (rule conjunct1)
    show "finalApp app run =
               app\<lparr>appState := SUMMARY_VIEW,
                   loadingMsg := ''Deconstructing Lecture Architecture...'',
                   summaryData := Some s, kgData := Some g,
                   topics := TopicExtractionResponse.topics t\<rparr>"
      using c[THEN conjunct2, THEN conjunct2, THEN conjunct2] by (rule conjunct2)
  next
    show "(appState (finalApp app run) = SUMMARY_VIEW) =
             (\<exists>s w1 g w2 t w3.
                generateGeneralSummary e text w = (Inr s, w1)
                \<and> extractKnowledgeGraph e text w1 = (Inr g, w2)
                \<and> extractTopics e text w2 = (Inr t, w3))"
      using c5[OF nb] by (rule conjunct1)
    show "\<forall>a \<in> set (fst (snd run)). appState a = SUMMARY_VIEW \<longrightarrow> a = finalApp app run"
      using c5[OF nb] by (rule conjunct2)
  qed
  show ?thesis
    by (rule conjI[OF impI[OF blank] impI[OF nonblank]])
qed

text \<open>
  The theorem at a text of a line feed and a space, and at \<^verbatim>\<open>T\<close> with a service whose
  summary fails, one whose knowledge graph fails, one whose topics are rate limited three
  times, and one that answers every request.
\<close>

theorem runPipeline_sequence_witness:
  "trim [CHR 0x0A, CHR 0x20] = []
   \<and> runPipeline calmEnv [CHR 0x0A, CHR 0x20] initialApp freshWorld = (None, [], freshWorld)
   \<and> trim ''T'' \<noteq> []
   \<and> fst (generateGeneralSummary summaryDownEnv ''T'' freshWorld) = Inl (Error None)
   \<and> invoked (snd (snd (runPipeline summaryDownEnv ''T'' initialApp freshWorld)))
        = [GenerateGeneralSummary ''T'']
   \<and> (\<exists>n1. 0 < n1 \<and> n1 \<le> 3 \<and>
         requests (snd (snd (runPipeline summaryDownEnv ''T'' initialApp freshWorld)))
           = replicate n1 (summaryRequest ''T''))
   \<and> appState (finalApp initialApp (runPipeline summaryDownEnv ''T'' initialApp freshWorld))
        \<noteq> SUMMARY_VIEW
   \<and> fst (generateGeneralSummary graphDownEnv ''T'' freshWorld) = Inr sampleSummary
   \<and> fst (extractKnowledgeGraph graphDownEnv ''T''
            (snd (generateGeneralSummary graphDownEnv ''T'' freshWorld)))
        = Inl (Error (Some ''500 Internal error''))
   \<and> invoked (snd (snd (runPipeline graphDownEnv ''T'' initialApp freshWorld)))
        = [GenerateGeneralSummary ''T'', ExtractKnowledgeGraph ''T'']
   \<and> (\<exists>n1 n2. 0 < n1 \<and> n1 \<le> 3 \<and> 0 < n2 \<and> n2 \<le> 3 \<and>
         requests (snd (snd (runPipeline graphDownEnv ''T'' initialApp freshWorld)))
           = replicate n1 (summaryRequest ''T'') @ replicate n2 (graphRequest ''T''))
   \<and> fst (extractTopics topicsThrottledEnv ''T''
            (snd (extractKnowledgeGraph topicsThrottledEnv ''T''
               (snd (generateGeneralSummary topicsThrottledEnv ''T'' freshWorld)))))
        = Inl (Error (Some ''429 RESOURCE_EXHAUSTED''))
   \<and> invoked (snd (snd (runPipeline topicsThrottledEnv ''T'' initialApp freshWorld)))
        = [GenerateGeneralSummary ''T'', ExtractKnowledgeGraph ''T'', ExtractTopics ''T'']
   \<and> (\<exists>n1 n2 n3. 0 < n1 \<and> n1 \<le> 3 \<and> 0 < n2 \<and> n2 \<le> 3 \<and> 0 < n3 \<and> n3 \<le> 3 \<and>
         requests (snd (snd (runPipeline topicsThrottledEnv ''T'' initialApp freshWorld)))
           = replicate n1 (summaryRequest ''T'') @ replicate n2 (graphRequest ''T'')
               @ replicate n3 (topicsRequest ''T''))
   \<and> fst (runPipeline calmEnv ''T'' initialApp freshWorld) = None
   \<and> invoked (snd (snd (runPipeline calmEnv ''T'' initialApp freshWorld)))
        = [GenerateGeneralSummary ''T'', ExtractKnowledgeGraph ''T'', ExtractTopics ''T'']
   \<and> (\<exists>n1 n2 n3. 0 < n1 \<and> n1 \<le> 3 \<and> 0 < n2 \<and> n2 \<le> 3 \<and> 0 < n3 \<and> n3 \<le> 3 \<and>
         requests (snd (snd (runPipeline calmEnv ''T'' initialApp freshWorld)))
           = replicate n1 (summaryRequest ''T'') @ replicate n2 (graphRequest ''T'')
               @ replicate n3 (topicsRequest ''T''))
   \<and> finalApp initialApp (runPipeline calmEnv ''T'' initialApp freshWorld)
        = initialApp\<lparr>appState := SUMMARY_VIEW,
                     loadingMsg := ''Deconstructing Lecture Architecture...'',
                     summaryData := Some sampleSummary, kgData := Some sampleGraph,
                     topics := [sampleTopic]\<rparr>"
proof -
  have fw: "invoked freshWorld = []" "requests freshWorld = []" by (simp_all add: freshWorld_def)
  have z: "runPipeline calmEnv [CHR 0x0A, CHR 0x20] initialApp freshWorld = (None, [], freshWorld)"
    using runPipeline_sequence[where e = calmEnv and app = initialApp and w = freshWorld,
        OF refl, THEN conjunct1, THEN mp, OF trim_blank_lines]
    by (rule conjunct1)
  have a: "invoked (snd (snd (runPipeline summaryDownEnv ''T'' initialApp freshWorld)))
        = [GenerateGeneralSummary ''T'']
   \<and> (\<exists>n1. 0 < n1 \<and> n1 \<le> 3 \<and>
         requests (snd (snd (runPipeline summaryDownEnv ''T'' initialApp freshWorld)))
           = replicate n1 (summaryRequest ''T''))"
    using runPipeline_sequence[where e = summaryDownEnv and app = initialApp and w = freshWorld,
        OF refl, THEN conjunct2, THEN mp, OF trim_T, THEN conjunct1, THEN mp, OF summaryDown_summary] fw
    by simp
  have a': "appState (finalApp initialApp (runPipeline summaryDownEnv ''T'' initialApp freshWorld))
        \<noteq> SUMMARY_VIEW"
    using runPipeline_sequence[where e = summaryDownEnv and app = initialApp and w = freshWorld,
        OF refl, THEN conjunct2, THEN mp, OF trim_T, THEN conjunct2, THEN conjunct2, THEN conjunct2,
        THEN conjunct2, THEN conjunct1] summaryDown_summary
    by simp
  have b: "invoked (snd (snd (runPipeline graphDownEnv ''T'' initialApp freshWorld)))
        = [GenerateGeneralSummary ''T'', ExtractKnowledgeGraph ''T'']
   \<and> (\<exists>n1 n2. 0 < n1 \<and> n1 \<le> 3 \<and> 0 < n2 \<and> n2 \<le> 3 \<and>
         requests (snd (snd (runPipeline graphDownEnv ''T'' initialApp freshWorld)))
           = replicate n1 (summaryRequest ''T'') @ replicate n2 (graphRequest ''T''))"
  proof -
    note t = runPipeline_sequence[where e = graphDownEnv and app = initialApp and w = freshWorld,
        OF refl, THEN conjunct2, THEN mp, OF trim_T, THEN conjunct2, THEN conjunct1, THEN mp,
        OF conjI, OF graphDown_summary graphDown_graph]
    obtain n1 n2 where n: "0 < n1" "n1 \<le> 3" "0 < n2" "n2 \<le> 3"
      "requests (freshWorld\<lparr>invoked := [GenerateGeneralSummary ''T''],
                            requests := [summaryRequest ''T'']\<rparr>)
         = requests freshWorld @ replicate n1 (summaryRequest ''T'')"
      "requests (snd (snd (runPipeline graphDownEnv ''T'' initialApp freshWorld)))
         = requests (freshWorld\<lparr>invoked := [GenerateGeneralSummary ''T''],
                            requests := [summaryRequest ''T'']\<rparr>) @ replicate n2 (graphRequest ''T'')"
      using t[THEN conjunct2] by blast
    have r: "requests (snd (snd (runPipeline graphDownEnv ''T'' initialApp freshWorld)))
           = replicate n1 (summaryRequest ''T'') @ replicate n2 (graphRequest ''T'')"
      using n(5,6) fw(2) by simp
    have i: "invoked (snd (snd (runPipeline graphDownEnv ''T'' initialApp freshWorld)))
        = [GenerateGeneralSummary ''T'', ExtractKnowledgeGraph ''T'']"
      using t[THEN conjunct1] fw(1) by simp
    show ?thesis using i n(1-4) r by blast
  qed
  have c: "invoked (snd (snd (runPipeline topicsThrottledEnv ''T'' initialApp freshWorld)))
        = [GenerateGeneralSummary ''T'', ExtractKnowledgeGraph ''T'', ExtractTopics ''T'']
   \<and> (\<exists>n1 n2 n3. 0 < n1 \<and> n1 \<le> 3 \<and> 0 < n2 \<and> n2 \<le> 3 \<and> 0 < n3 \<and> n3 \<le> 3 \<and>
         requests (snd (snd (runPipeline topicsThrottledEnv ''T'' initialApp freshWorld)))
           = replicate n1 (summaryRequest ''T'') @ replicate n2 (graphRequest ''T'')
               @ replicate n3 (topicsRequest ''T''))"
  proof -
    note t = runPipeline_sequence[where e = topicsThrottledEnv and app = initialApp and w = freshWorld,
        OF refl, THEN conjunct2, THEN mp, OF trim_T, THEN conjunct2, THEN conjunct2, THEN conjunct1,
        THEN mp, OF conjI, OF throttled_summary conjI, OF throttled_graph throttled_topics]
    obtain n1 n2 n3 where n: "0 < n1" "n1 \<le> 3" "0 < n2" "n2 \<le> 3" "0 < n3" "n3 \<le> 3"
      "requests (freshWorld\<lparr>invoked := [GenerateGeneralSummary ''T''],
                            requests := [summaryRequest ''T'']\<rparr>)
         = requests freshWorld @ replicate n1 (summaryRequest ''T'')"
      "requests (freshWorld\<lparr>invoked := [GenerateGeneralSummary ''T'', ExtractKnowledgeGraph ''T''],
                            requests := [summaryRequest ''T'', graphRequest ''T'']\<rparr>)
         = requests (freshWorld\<lparr>invoked := [GenerateGeneralSummary ''T''],
                            requests := [summaryRequest ''T'']\<rparr>) @ replicate n2 (graphRequest ''T'')"
      "requests (snd (snd (runPipeline topicsThrottledEnv ''T'' initialApp freshWorld)))
         = requests (freshWorld\<lparr>invoked := [GenerateGeneralSummary ''T'', ExtractKnowledgeGraph ''T''],
                            requests := [summaryRequest ''T'', graphRequest ''T'']\<rparr>)
             @ replicate n3 (topicsRequest ''T'')"
      using t[THEN conjunct2] by blast
    have r: "requests (snd (snd (runPipeline topicsThrottledEnv ''T'' initialApp freshWorld)))
           = replicate n1 (summaryRequest ''T'') @ replicate n2 (graphRequest ''T'')
               @ replicate n3 (topicsRequest ''T'')"
      using n(7,8,9) fw(2) by simp
    have i: "invoked (snd (snd (runPipeline topicsThrottledEnv ''T'' initialApp freshWorld)))
        = [GenerateGeneralSummary ''T'', ExtractKnowledgeGraph ''T'', ExtractTopics ''T'']"
      using t[THEN conjunct1] fw(1) by simp
    show ?thesis using i n(1-6) r by blast
  qed
  have d: "fst (runPipeline calmEnv ''T'' initialApp freshWorld) = None
   \<and> invoked (snd (snd (runPipeline calmEnv ''T'' initialApp freshWorld)))
        = [GenerateGeneralSummary ''T'', ExtractKnowledgeGraph ''T'', ExtractTopics ''T'']
   \<and> (\<exists>n1 n2 n3. 0 < n1 \<and> n1 \<le> 3 \<and> 0 < n2 \<and> n2 \<le> 3 \<and> 0 < n3 \<and> n3 \<le> 3 \<and>
         requests (snd (snd (runPipeline calmEnv ''T'' initialApp freshWorld)))
           = replicate n1 (summaryRequest ''T'') @ replicate n2 (graphRequest ''T'')
               @ replicate n3 (topicsRequest ''T''))
   \<and> finalApp initialApp (runPipeline calmEnv ''T'' initialApp freshWorld)
        = initialApp\<lparr>appState := SUMMARY_VIEW,
                     loadingMsg := ''Deconstructing Lecture Architecture...'',
                     summaryData := Some sampleSummary, kgData := Some sampleGraph,
                     topics := [sampleTopic]\<rparr>"
  proof -
    note t = runPipeline_sequence[where e = calmEnv and app = initialApp and w = freshWorld,
        OF refl, THEN conjunct2, THEN mp, OF trim_T, THEN conjunct2, THEN conjunct2, THEN conjunct2,
        THEN conjunct1, THEN mp, OF conjI, OF calm_summary conjI, OF calm_graph calm_topics]
    have w3: "snd (snd (runPipeline calmEnv ''T'' initialApp freshWorld)) =
        freshWorld\<lparr>invoked := [GenerateGeneralSummary ''T'', ExtractKnowledgeGraph ''T'',
                               ExtractTopics ''T''],
                   requests := [summaryRequest ''T'', graphRequest ''T'', topicsRequest ''T'']\<rparr>"
      using t[THEN conjunct2, THEN conjunct1] .
    obtain n1 n2 n3 where n: "0 < n1" "n1 \<le> 3" "0 < n2" "n2 \<le> 3" "0 < n3" "n3 \<le> 3"
      "requests (freshWorld\<lparr>invoked := [GenerateGeneralSummary ''T''],
                            requests := [summaryRequest ''T'']\<rparr>)
         = requests freshWorld @ replicate n1 (summaryRequest ''T'')"
      "requests (freshWorld\<lparr>invoked := [GenerateGeneralSummary ''T'', ExtractKnowledgeGraph ''T''],
                            requests := [summaryRequest ''T'', graphRequest ''T'']\<rparr>)
         = requests (freshWorld\<lparr>invoked := [GenerateGeneralSummary ''T''],
                            requests := [summaryRequest ''T'']\<rparr>) @ replicate n2 (graphRequest ''T'')"
      "requests (freshWorld\<lparr>invoked := [GenerateGeneralSummary ''T'', ExtractKnowledgeGraph ''T'',
                               ExtractTopics ''T''],
                   requests := [summaryRequest ''T'', graphRequest ''T'', topicsRequest ''T'']\<rparr>)
         = requests (freshWorld\<lparr>invoked := [GenerateGeneralSummary ''T'', ExtractKnowledgeGraph ''T''],
                            requests := [summaryRequest ''T'', graphRequest ''T'']\<rparr>)
             @ replicate n3 (topicsRequest ''T'')"
      using t[THEN conjunct2, THEN conjunct2, THEN conjunct2, THEN conjunct1] by blast
    have r: "requests (snd (snd (runPipeline calmEnv ''T'' initialApp freshWorld)))
           = replicate n1 (summaryRequest ''T'') @ replicate n2 (graphRequest ''T'')
               @ replicate n3 (topicsRequest ''T'')"
      unfolding w3 using n(7,8,9) fw(2) by simp
    have i: "invoked (snd (snd (runPipeline calmEnv ''T'' initialApp freshWorld)))
        = [GenerateGeneralSummary ''T'', ExtractKnowledgeGraph ''T'', ExtractTopics ''T'']"
      unfolding w3 by simp
    have f: "finalApp initialApp (runPipeline calmEnv ''T'' initialApp freshWorld)
        = initialApp\<lparr>appState := SUMMARY_VIEW,
                     loadingMsg := ''Deconstructing Lecture Architecture...'',
                     summaryData := Some sampleSummary, kgData := Some sampleGraph,
                     topics := [sampleTopic]\<rparr>"
      using t[THEN conjunct2, THEN conjunct2, THEN conjunct2, THEN conjunct2] by simp
    show ?thesis using t[THEN conjunct1] i n(1-6) r f by blast
  qed
  show ?thesis
    using trim_blank_lines z trim_T summaryDown_summary a a' graphDown_summary graphDown_graph b
      throttled_summary throttled_graph throttled_topics c d
    by simp
qed

text \<open>
  Claim C5 as stated fails on text that is not empty but blank: for a single space
  \<^verbatim>\<open>runPipeline\<close> returns at its guard \<^verbatim>\<open>!text.trim()\<close>, no stage is invoked and the
  state is left as it was.
\<close>

theorem runPipeline_blank_text:
  "'' '' \<noteq> []
   \<and> runPipeline calmEnv '' '' initialApp freshWorld = (None, [], freshWorld)
   \<and> invoked (snd (snd (runPipeline calmEnv '' '' initialApp freshWorld))) = []
   \<and> finalApp initialApp (runPipeline calmEnv '' '' initialApp freshWorld) = initialApp"
  by (simp add: runPipeline_def trim_blank finalApp_def freshWorld_def)

section \<open>The quiz payload is not validated\<close>

lemma withRetry3_result:
  "\<exists>k<3. result (withRetry fn random 3) = settle (fn k)"
proof -
  have "result (withRetry fn random 3) = settle (fn (attempts (withRetry fn random 3) - 1))"
    using retryLoop_result[of 0 3 fn random Undefined "[]"] by (simp add: withRetry_def)
  moreover have "attempts (withRetry fn random 3) - 1 < 3"
    using withRetry3_attempts[of fn random] by linarith
  ultimately show ?thesis by blast
qed

lemma settle_Inr: "settle r = Inr x \<longleftrightarrow> r = Inr x"
  by (cases r) (simp_all add: settle_def)

lemma stray_quiz:
  "generateQuiz strayEnv sampleTopic None freshWorld =
     (Inr \<lparr>quiz = [strayQuestion]\<rparr>,
      freshWorld\<lparr>invoked := [GenerateQuiz sampleTopic None],
                 requests := [quizRequest sampleTopic None]\<rparr>)"
  using quiz_first_success[of strayEnv freshWorld sampleTopic None "\<lparr>quiz = [strayQuestion]\<rparr>"]
  by (simp add: strayEnv_def calmEnv_def freshWorld_def)

text \<open>
  Claim C2, as the code has it. \<^verbatim>\<open>generateQuiz\<close> checks nothing after the parse: what it
  returns is the payload of one of its at most three requests, as the service gave it,
  and a payload given to the first request is returned whatever it holds. The payload's
  questions become session data unchanged: \<^verbatim>\<open>handleStartQuiz\<close> stores them as
  \<^verbatim>\<open>currentQuiz\<close> and shows the quiz, and \<^verbatim>\<open>handleAdaptiveRetake\<close> makes them the
  questions of the session. That \<^verbatim>\<open>correct_answer\<close> is one of the options is asked of
  the service in the system instruction only.
\<close>

theorem generateQuiz_unvalidated:
  "(fst (generateQuiz e t ctx w) = Inr resp \<longrightarrow>
      (\<exists>k<3. quizService e (length (requests w) + k) (quizRequest t ctx) = Inr resp))
   \<and> (quizService e (length (requests w)) (quizRequest t ctx) = Inr resp \<longrightarrow>
      fst (generateQuiz e t ctx w) = Inr resp)
   \<and> (fst (generateQuiz e t None w) = Inr resp \<longrightarrow>
      currentQuiz (fst (handleStartQuiz e t app w)) = quiz resp
      \<and> appState (fst (handleStartQuiz e t app w)) = QUIZ_VIEW)
   \<and> (fst (generateQuiz e (topic v) (Some (score v, length (questions v))) w) = Inr resp \<longrightarrow>
      questions (last (fst (handleAdaptiveRetake e v w))) = quiz resp)"
proof -
  let ?w = "w\<lparr>invoked := invoked w @ [GenerateQuiz t ctx]\<rparr>"
  have a: "\<exists>k<3. quizService e (length (requests w) + k) (quizRequest t ctx) = Inr resp"
    if "fst (generateQuiz e t ctx w) = Inr resp"
  proof -
    obtain k where k: "k < 3"
      "fst (generateQuiz e t ctx w) = settle (quizService e (length (requests ?w) + k) (quizRequest t ctx))"
      using withRetry3_result[of "\<lambda>i. quizService e (length (requests ?w) + i) (quizRequest t ctx)"
              "\<lambda>i. mathRandom e (length (timers ?w) + i)"]
      by (auto simp: generateQuiz_def callService_def Let_def)
    then have "settle (quizService e (length (requests ?w) + k) (quizRequest t ctx)) = Inr resp"
      using that by simp
    then have "quizService e (length (requests w) + k) (quizRequest t ctx) = Inr resp"
      unfolding settle_Inr by simp
    then show ?thesis using k(1) by blast
  qed
  have b: "fst (generateQuiz e t ctx w) = Inr resp"
    if "quizService e (length (requests w)) (quizRequest t ctx) = Inr resp"
    using quiz_first_success[OF that] by simp
  have c: "currentQuiz (fst (handleStartQuiz e t app w)) = quiz resp
      \<and> appState (fst (handleStartQuiz e t app w)) = QUIZ_VIEW"
    if "fst (generateQuiz e t None w) = Inr resp"
  proof -
    obtain r w1 where p: "generateQuiz e t None w = (r, w1)" by fastforce
    then have "r = Inr resp" using that by simp
    then show ?thesis using p by (simp add: handleStartQuiz_def Let_def)
  qed
  have d: "questions (last (fst (handleAdaptiveRetake e v w))) = quiz resp"
    if "fst (generateQuiz e (topic v) (Some (score v, length (questions v))) w) = Inr resp"
    using that by (simp add: generateQuiz_result_world)
  show ?thesis using a b c d by blast
qed

theorem generateQuiz_unvalidated_witness:
  "quizService strayEnv (length (requests freshWorld)) (quizRequest sampleTopic None)
      = Inr \<lparr>quiz = [strayQuestion]\<rparr>
   \<and> fst (generateQuiz strayEnv sampleTopic None freshWorld) = Inr \<lparr>quiz = [strayQuestion]\<rparr>
   \<and> (\<exists>k<3. quizService strayEnv (length (requests freshWorld) + k) (quizRequest sampleTopic None)
          = Inr \<lparr>quiz = [strayQuestion]\<rparr>)
   \<and> currentQuiz (fst (handleStartQuiz strayEnv sampleTopic browsingApp freshWorld))
      = [strayQuestion]
   \<and> appState (fst (handleStartQuiz strayEnv sampleTopic browsingApp freshWorld)) = QUIZ_VIEW
   \<and> fst (generateQuiz strayEnv (topic completedView)
          (Some (score completedView, length (questions completedView))) freshWorld)
      = Inr \<lparr>quiz = [strayQuestion]\<rparr>
   \<and> questions (last (fst (handleAdaptiveRetake strayEnv completedView freshWorld)))
      = [strayQuestion]"
proof -
  have s: "quizService strayEnv (length (requests freshWorld)) (quizRequest sampleTopic None)
      = Inr \<lparr>quiz = [strayQuestion]\<rparr>"
    by (simp add: strayEnv_def calmEnv_def)
  have s': "quizService strayEnv (length (requests freshWorld))
        (quizRequest (topic completedView)
           (Some (score completedView, length (questions completedView))))
      = Inr \<lparr>quiz = [strayQuestion]\<rparr>"
    by (simp add: strayEnv_def calmEnv_def)
  have g: "fst (generateQuiz strayEnv sampleTopic None freshWorld) = Inr \<lparr>quiz = [strayQuestion]\<rparr>"
    using generateQuiz_unvalidated[where e = strayEnv and t = sampleTopic and ctx = None
        and w = freshWorld and resp = "\<lparr>quiz = [strayQuestion]\<rparr>", THEN conjunct2, THEN conjunct1] s
    by blast
  have k: "\<exists>k<3. quizService strayEnv (length (requests freshWorld) + k) (quizRequest sampleTopic None)
          = Inr \<lparr>quiz = [strayQuestion]\<rparr>"
    using generateQuiz_unvalidated[where e = strayEnv and t = sampleTopic and ctx = None
        and w = freshWorld and resp = "\<lparr>quiz = [strayQuestion]\<rparr>", THEN conjunct1] g
    by blast
  have g': "fst (generateQuiz strayEnv (topic completedView)
          (Some (score completedView, length (questions completedView))) freshWorld)
      = Inr \<lparr>quiz = [strayQuestion]\<rparr>"
    using generateQuiz_unvalidated[where e = strayEnv and t = "topic completedView"
        and ctx = "Some (score completedView, length (questions completedView))"
        and w = freshWorld and resp = "\<lparr>quiz = [strayQuestion]\<rparr>", THEN conjunct2, THEN conjunct1] s'
    by blast
  have r: "questions (last (fst (handleAdaptiveRetake strayEnv completedView freshWorld)))
      = [strayQuestion]"
    using generateQuiz_unvalidated[where e = strayEnv and v = completedView
        and w = freshWorld and resp = "\<lparr>quiz = [strayQuestion]\<rparr>",
        THEN conjunct2, THEN conjunct2, THEN conjunct2] g'
    by simp
  have h: "currentQuiz (fst (handleStartQuiz strayEnv sampleTopic browsingApp freshWorld))
      = [strayQuestion]
   \<and> appState (fst (handleStartQuiz strayEnv sampleTopic browsingApp freshWorld)) = QUIZ_VIEW"
    using g generateQuiz_unvalidated[where e = strayEnv and t = sampleTopic
        and w = freshWorld and resp = "\<lparr>quiz = [strayQuestion]\<rparr>" and app = browsingApp,
        THEN conjunct2, THEN conjunct2, THEN conjunct1]
    by simp
  show ?thesis using s g k h g' r by blast
qed

text \<open>
  Claim C2 as stated fails: the service answers with a question whose
  \<^verbatim>\<open>correct_answer\<close> differs from both options (in case), \<^verbatim>\<open>generateQuiz\<close> returns it,
  and the application shows a quiz over that question.
\<close>

theorem quiz_correct_answer_not_checked:
  "correct_answer strayQuestion \<notin> set (options strayQuestion)
   \<and> fst (generateQuiz strayEnv sampleTopic None freshWorld) = Inr \<lparr>quiz = [strayQuestion]\<rparr>
   \<and> appState (fst (handleStartQuiz strayEnv sampleTopic browsingApp freshWorld)) = QUIZ_VIEW
   \<and> render (fst (handleStartQuiz strayEnv sampleTopic browsingApp freshWorld))
        = QuizScreen [strayQuestion] sampleTopic
   \<and> questions (mount (currentQuiz (fst (handleStartQuiz strayEnv sampleTopic browsingApp freshWorld)))
        sampleTopic) = [strayQuestion]"
  by (simp add: stray_quiz handleStartQuiz_def strayQuestion_def render_def mount_def)

section \<open>The score of a session\<close>

lemma mount_inv: "sessionInv (mount qs t)"
  by (simp add: sessionInv_def mount_def)

lemma inv_bound: "sessionInv v \<Longrightarrow> score v \<le> length (questions v)"
  unfolding sessionInv_def by auto

lemma inv_select: "sessionInv v \<Longrightarrow> sessionInv (v\<lparr>selectedOption := x\<rparr>)"
  by (simp add: sessionInv_def)

lemma inv_submit:
  "sessionInv v \<Longrightarrow> \<not> isAnswered v \<Longrightarrow> currentIdx v < length (questions v) \<Longrightarrow>
   n \<le> score v + 1 \<Longrightarrow> sessionInv (v\<lparr>isAnswered := True, score := n\<rparr>)"
  unfolding sessionInv_def by simp

lemma inv_next:
  "sessionInv v \<Longrightarrow> isAnswered v \<Longrightarrow> currentIdx v + 1 < length (questions v) \<Longrightarrow>
   sessionInv (v\<lparr>currentIdx := currentIdx v + 1, selectedOption := None, isAnswered := False\<rparr>)"
  unfolding sessionInv_def by auto

lemma inv_finish: "sessionInv v \<Longrightarrow> sessionInv (v\<lparr>isFinishing := True\<rparr>)"
  by (simp add: sessionInv_def)

lemma retake_last:
  "last (v # fst (handleAdaptiveRetake e v w)) =
     (case fst (generateQuiz e (topic v) (Some (score v, length (questions v))) w) of
        Inr resp \<Rightarrow>
          v\<lparr>isAdapting := False, questions := quiz resp, currentIdx := 0, selectedOption := None,
             isAnswered := False, score := 0, isFinishing := False\<rparr>
      | Inl err \<Rightarrow> v\<lparr>isAdapting := False\<rparr>)"
  by (simp add: generateQuiz_result_world split: sum.splits)

lemma fire_Select:
  "fire e (Select option) (v, w) = Some (v', w') \<Longrightarrow>
     v' = v\<lparr>selectedOption := Some option\<rparr> \<and> w' = w \<and> \<not> isAnswered v"
  by (auto simp: fire.simps handleOptionClick_def split: if_splits option.splits)

lemma fire_Submit:
  "fire e Submit (v, w) = Some (v', w') \<Longrightarrow>
     \<not> isAnswered v \<and> currentIdx v < length (questions v) \<and> w' = w
     \<and> v' = v\<lparr>isAnswered := True,
              score := (if selectedOption v = Some (correct_answer (questions v ! currentIdx v))
                        then score v + 1 else score v)\<rparr>"
  by (auto simp: fire.simps handleSubmit_def currentQuestion_def Let_def split: if_splits sum.splits)

lemma fire_Advance:
  "fire e Advance (v, w) = Some (v', w') \<Longrightarrow>
     isAnswered v \<and> currentIdx v < length (questions v) \<and> w' = w
     \<and> v' = (if currentIdx v + 1 < length (questions v)
             then v\<lparr>currentIdx := currentIdx v + 1, selectedOption := None, isAnswered := False\<rparr>
             else v\<lparr>isFinishing := True\<rparr>)"
  by (auto simp: fire.simps handleNext_def currentQuestion_def split: if_splits)

lemma fire_AdaptiveRetake:
  "fire e AdaptiveRetake (v, w) = Some (v', w') \<Longrightarrow>
     isFinishing v \<and> \<not> isAdapting v
     \<and> v' = (case fst (generateQuiz e (topic v) (Some (score v, length (questions v))) w) of
              Inr resp \<Rightarrow> mount (quiz resp) (topic v)
            | Inl err \<Rightarrow> v)"
proof -
  assume a: "fire e AdaptiveRetake (v, w) = Some (v', w')"
  then have en: "isFinishing v" "\<not> isAdapting v" by (auto simp: fire.simps split: if_splits)
  have same: "v\<lparr>isAdapting := False\<rparr> = v" using en by (cases v) simp
  have "v' = last (v # fst (handleAdaptiveRetake e v w))"
    using a en by (auto simp: fire.simps split: prod.splits)
  then have "v' = (case fst (generateQuiz e (topic v) (Some (score v, length (questions v))) w) of
              Inr resp \<Rightarrow> mount (quiz resp) (topic v)
            | Inl err \<Rightarrow> v)"
    unfolding retake_last using same by (cases v) (simp add: mount_def split: sum.splits)
  then show ?thesis using en by simp
qed

lemma fire_inv:
  assumes "sessionInv v" and "fire e ev (v, w) = Some (v', w')"
  shows "sessionInv v'"
proof (cases ev)
  case (Select option)
  then have "v' = v\<lparr>selectedOption := Some option\<rparr>"
    using assms(2) fire_Select by blast
  then show ?thesis using inv_select[OF assms(1)] by simp
next
  case Submit
  then have s: "\<not> isAnswered v" "currentIdx v < length (questions v)"
     "v' = v\<lparr>isAnswered := True,
              score := (if selectedOption v = Some (correct_answer (questions v ! currentIdx v))
                        then score v + 1 else score v)\<rparr>"
    using assms(2) fire_Submit[of e v w v' w'] by simp_all
  show ?thesis unfolding s(3) by (rule inv_submit[OF assms(1) s(1,2)]) simp
next
  case Advance
  then have s: "isAnswered v" "currentIdx v < length (questions v)"
     "v' = (if currentIdx v + 1 < length (questions v)
             then v\<lparr>currentIdx := currentIdx v + 1, selectedOption := None, isAnswered := False\<rparr>
             else v\<lparr>isFinishing := True\<rparr>)"
    using assms(2) fire_Advance[of e v w v' w'] by simp_all
  show ?thesis
  proof (cases "currentIdx v + 1 < length (questions v)")
    case True
    then show ?thesis using s(3) inv_next[OF assms(1) s(1) True] by simp
  next
    case False
    then show ?thesis using s(3) inv_finish[OF assms(1)] by simp
  qed
next
  case AdaptiveRetake
  then have s: "v' = (case fst (generateQuiz e (topic v) (Some (score v, length (questions v))) w) of
              Inr resp \<Rightarrow> mount (quiz resp) (topic v)
            | Inl err \<Rightarrow> v)"
    using assms(2) fire_AdaptiveRetake[of e v w v' w'] by simp
  show ?thesis
  proof (cases "fst (generateQuiz e (topic v) (Some (score v, length (questions v))) w)")
    case (Inl err)
    then show ?thesis using s assms(1) by simp
  next
    case (Inr resp)
    then show ?thesis using s mount_inv by simp
  qed
qed

lemma exec_inv:
  "sessionInv v \<Longrightarrow> exec e evs (v, w) = Some (v', w') \<Longrightarrow> sessionInv v'"
proof (induction evs arbitrary: v w)
  case Nil
  then show ?case by simp
next
  case (Cons ev evs)
  from Cons.prems(2) obtain v1 w1 where
    f: "fire e ev (v, w) = Some (v1, w1)" and r: "exec e evs (v1, w1) = Some (v', w')"
    by (auto split: option.splits)
  show ?case using Cons.IH[OF fire_inv[OF Cons.prems(1) f] r] .
qed

lemma sample_session:
  "exec calmEnv [Select ''Merge sort''] (mount [sampleQuestion] sampleTopic, freshWorld)
     = Some ((mount [sampleQuestion] sampleTopic)\<lparr>selectedOption := Some ''Merge sort''\<rparr>, freshWorld)"
  "fire calmEnv Submit
     ((mount [sampleQuestion] sampleTopic)\<lparr>selectedOption := Some ''Merge sort''\<rparr>, freshWorld)
     = Some ((mount [sampleQuestion] sampleTopic)
               \<lparr>selectedOption := Some ''Merge sort'', isAnswered := True, score := 1\<rparr>, freshWorld)"
  "fire calmEnv Advance
     ((mount [sampleQuestion] sampleTopic)
        \<lparr>selectedOption := Some ''Merge sort'', isAnswered := True, score := 1\<rparr>, freshWorld)
     = Some (completedView, freshWorld)"
  by (simp_all add: fire.simps mount_def sampleQuestion_def currentQuestion_def
        handleOptionClick_def handleSubmit_def handleNext_def falsy_def completedView_def)

lemma fire_AdaptiveRetake_eq:
  "enabled v AdaptiveRetake \<Longrightarrow>
   fire e AdaptiveRetake (v, w) =
     Some (last (v # fst (handleAdaptiveRetake e v w)), snd (handleAdaptiveRetake e v w))"
  by (simp add: fire.simps case_prod_beta)

lemma sample_retake:
  "fire calmEnv AdaptiveRetake (completedView, freshWorld)
     = Some (mount [sampleQuestion] sampleTopic,
             snd (generateQuiz calmEnv (topic completedView)
                    (Some (score completedView, length (questions completedView))) freshWorld))"
proof -
  have g: "fst (generateQuiz calmEnv (topic completedView)
                    (Some (score completedView, length (questions completedView))) freshWorld)
     = Inr \<lparr>quiz = [sampleQuestion]\<rparr>"
    using quiz_first_success[of calmEnv freshWorld "topic completedView"
        "Some (score completedView, length (questions completedView))" "\<lparr>quiz = [sampleQuestion]\<rparr>"]
    by (simp add: calmEnv_def)
  have en: "enabled completedView AdaptiveRetake" by (simp add: completedView_def)
  have l: "last (completedView # fst (handleAdaptiveRetake calmEnv completedView freshWorld))
      = mount [sampleQuestion] sampleTopic"
    unfolding retake_last g by (simp add: completedView_def mount_def)
  have w: "snd (handleAdaptiveRetake calmEnv completedView freshWorld)
      = snd (generateQuiz calmEnv (topic completedView)
                    (Some (score completedView, length (questions completedView))) freshWorld)"
    by (simp add: generateQuiz_result_world)
  show ?thesis
    unfolding fire_AdaptiveRetake_eq[OF en] l w ..
qed

lemma sample_exec:
  "exec calmEnv [Select ''Merge sort'', Submit, Advance]
         (mount [sampleQuestion] sampleTopic, freshWorld) = Some (completedView, freshWorld)"
  "exec calmEnv [Select ''Merge sort'', Submit, Advance, AdaptiveRetake]
         (mount [sampleQuestion] sampleTopic, freshWorld)
     = Some (mount [sampleQuestion] sampleTopic,
             snd (generateQuiz calmEnv (topic completedView)
                    (Some (score completedView, length (questions completedView))) freshWorld))"
proof -
  have s1: "fire calmEnv (Select ''Merge sort'') (mount [sampleQuestion] sampleTopic, freshWorld)
     = Some ((mount [sampleQuestion] sampleTopic)\<lparr>selectedOption := Some ''Merge sort''\<rparr>, freshWorld)"
    using sample_session(1) by (simp split: option.splits)
  show "exec calmEnv [Select ''Merge sort'', Submit, Advance]
         (mount [sampleQuestion] sampleTopic, freshWorld) = Some (completedView, freshWorld)"
    by (simp add: s1 sample_session(2,3)[simplified])
  show "exec calmEnv [Select ''Merge sort'', Submit, Advance, AdaptiveRetake]
         (mount [sampleQuestion] sampleTopic, freshWorld)
     = Some (mount [sampleQuestion] sampleTopic,
             snd (generateQuiz calmEnv (topic completedView)
                    (Some (score completedView, length (questions completedView))) freshWorld))"
    by (simp add: s1 sample_session(2,3)[simplified] sample_retake)
qed

text \<open>
  Claim C8. In every state reached from a freshly mounted quiz by
  the operations the component offers (select, submit, advance, adaptive retake),
  \<open>0 \<le> score \<le> N\<close> for the \<open>N\<close> questions of the session, and so after one more
  operation. The score rises only by a submit whose selection equals the current
  question's correct answer, and then by exactly 1; a submit of another selection
  leaves it as it is. The score falls only when an adaptive retake succeeds, which
  starts a fresh session over the new questions with score 0.
\<close>

theorem score_bounded:
  assumes "exec e evs (mount qs t, w) = Some (v, w')"
  shows "0 \<le> score v \<and> score v \<le> length (questions v)
     \<and> (fire e ev (v, w') = Some (v', w'') \<longrightarrow>
          score v' \<le> length (questions v')
          \<and> (score v < score v' \<longrightarrow>
                ev = Submit
                \<and> selectedOption v = Some (correct_answer (questions v ! currentIdx v))
                \<and> score v' = score v + 1)
          \<and> (score v' < score v \<longrightarrow>
                ev = AdaptiveRetake \<and> score v' = 0
                \<and> (\<exists>resp. fst (generateQuiz e (topic v) (Some (score v, length (questions v))) w')
                              = Inr resp \<and> v' = mount (quiz resp) (topic v)))
          \<and> (ev = Submit
               \<and> selectedOption v \<noteq> Some (correct_answer (questions v ! currentIdx v)) \<longrightarrow>
                score v' = score v))"
proof -
  have inv: "sessionInv v" using exec_inv[OF mount_inv assms] .
  have step: "score v' \<le> length (questions v')
          \<and> (score v < score v' \<longrightarrow>
                ev = Submit
                \<and> selectedOption v = Some (correct_answer (questions v ! currentIdx v))
                \<and> score v' = score v + 1)
          \<and> (score v' < score v \<longrightarrow>
                ev = AdaptiveRetake \<and> score v' = 0
                \<and> (\<exists>resp. fst (generateQuiz e (topic v) (Some (score v, length (questions v))) w')
                              = Inr resp \<and> v' = mount (quiz resp) (topic v)))
          \<and> (ev = Submit
               \<and> selectedOption v \<noteq> Some (correct_answer (questions v ! currentIdx v)) \<longrightarrow>
                score v' = score v)"
    if f: "fire e ev (v, w') = Some (v', w'')"
  proof -
    have b: "score v' \<le> length (questions v')" using inv_bound[OF fire_inv[OF inv f]] .
    show ?thesis
    proof (cases ev)
      case (Select option)
      then have "score v' = score v" using fire_Select[of e option v w' v' w''] f by simp
      then show ?thesis using b Select by simp
    next
      case Submit
      then have "score v' = (if selectedOption v = Some (correct_answer (questions v ! currentIdx v))
                        then score v + 1 else score v)"
        using fire_Submit[of e v w' v' w''] f by simp
      then show ?thesis using b Submit by simp
    next
      case Advance
      then have "score v' = score v" using fire_Advance[of e v w' v' w''] f by (simp split: if_splits)
      then show ?thesis using b Advance by simp
    next
      case AdaptiveRetake
      then have s: "v' = (case fst (generateQuiz e (topic v) (Some (score v, length (questions v))) w') of
              Inr resp \<Rightarrow> mount (quiz resp) (topic v)
            | Inl err \<Rightarrow> v)"
        using fire_AdaptiveRetake[of e v w' v' w''] f by simp
      show ?thesis
      proof (cases "fst (generateQuiz e (topic v) (Some (score v, length (questions v))) w')")
        case (Inl err)
        then have "v' = v" using s by simp
        then show ?thesis using b AdaptiveRetake by simp
      next
        case (Inr resp)
        then have m: "v' = mount (quiz resp) (topic v)" using s by simp
        then have "score v' = 0" by (simp add: mount_def)
        then show ?thesis using b AdaptiveRetake Inr m by simp
      qed
    qed
  qed
  show ?thesis using inv_bound[OF inv] step by blast
qed

theorem score_bounded_witness:
  "exec calmEnv [Select ''Merge sort''] (mount [sampleQuestion] sampleTopic, freshWorld)
     = Some ((mount [sampleQuestion] sampleTopic)\<lparr>selectedOption := Some ''Merge sort''\<rparr>, freshWorld)
   \<and> fire calmEnv Submit
     ((mount [sampleQuestion] sampleTopic)\<lparr>selectedOption := Some ''Merge sort''\<rparr>, freshWorld)
     = Some ((mount [sampleQuestion] sampleTopic)
               \<lparr>selectedOption := Some ''Merge sort'', isAnswered := True, score := 1\<rparr>, freshWorld)
   \<and> score ((mount [sampleQuestion] sampleTopic)\<lparr>selectedOption := Some ''Merge sort''\<rparr>)
       < score ((mount [sampleQuestion] sampleTopic)
               \<lparr>selectedOption := Some ''Merge sort'', isAnswered := True, score := 1\<rparr>)
   \<and> score ((mount [sampleQuestion] sampleTopic)
               \<lparr>selectedOption := Some ''Merge sort'', isAnswered := True, score := 1\<rparr>)
       \<le> length (questions ((mount [sampleQuestion] sampleTopic)
               \<lparr>selectedOption := Some ''Merge sort'', isAnswered := True, score := 1\<rparr>))
   \<and> selectedOption ((mount [sampleQuestion] sampleTopic)\<lparr>selectedOption := Some ''Merge sort''\<rparr>)
       = Some (correct_answer (questions ((mount [sampleQuestion] sampleTopic)
                  \<lparr>selectedOption := Some ''Merge sort''\<rparr>)
                ! currentIdx ((mount [sampleQuestion] sampleTopic)
                  \<lparr>selectedOption := Some ''Merge sort''\<rparr>)))
   \<and> exec calmEnv [Select ''Merge sort'', Submit, Advance]
         (mount [sampleQuestion] sampleTopic, freshWorld) = Some (completedView, freshWorld)
   \<and> score completedView = 1 \<and> score completedView \<le> length (questions completedView)
   \<and> fire calmEnv AdaptiveRetake (completedView, freshWorld)
     = Some (mount [sampleQuestion] sampleTopic,
             snd (generateQuiz calmEnv (topic completedView)
                    (Some (score completedView, length (questions completedView))) freshWorld))
   \<and> score (mount [sampleQuestion] sampleTopic) < score completedView
   \<and> score (mount [sampleQuestion] sampleTopic) = 0"
proof -
  have lt: "score ((mount [sampleQuestion] sampleTopic)\<lparr>selectedOption := Some ''Merge sort''\<rparr>)
       < score ((mount [sampleQuestion] sampleTopic)
               \<lparr>selectedOption := Some ''Merge sort'', isAnswered := True, score := 1\<rparr>)"
    by (simp add: mount_def)
  have a: "score ((mount [sampleQuestion] sampleTopic)
               \<lparr>selectedOption := Some ''Merge sort'', isAnswered := True, score := 1\<rparr>)
       \<le> length (questions ((mount [sampleQuestion] sampleTopic)
               \<lparr>selectedOption := Some ''Merge sort'', isAnswered := True, score := 1\<rparr>))
   \<and> selectedOption ((mount [sampleQuestion] sampleTopic)\<lparr>selectedOption := Some ''Merge sort''\<rparr>)
       = Some (correct_answer (questions ((mount [sampleQuestion] sampleTopic)
                  \<lparr>selectedOption := Some ''Merge sort''\<rparr>)
                ! currentIdx ((mount [sampleQuestion] sampleTopic)
                  \<lparr>selectedOption := Some ''Merge sort''\<rparr>)))"
    using score_bounded[OF sample_session(1), where ev = Submit, THEN conjunct2, THEN conjunct2,
        rule_format, OF sample_session(2)] lt
    by simp
  have lt2: "score (mount [sampleQuestion] sampleTopic) < score completedView"
    "score completedView = 1"
    by (simp_all add: mount_def completedView_def)
  have b: "score completedView \<le> length (questions completedView)"
    using score_bounded[OF sample_exec(1), where ev = Submit] by blast
  have c: "score (mount [sampleQuestion] sampleTopic) = 0"
    using score_bounded[OF sample_exec(1), where ev = AdaptiveRetake, THEN conjunct2, THEN conjunct2,
        rule_format, OF sample_retake] lt2(1)
    by blast
  show ?thesis
    using sample_session(1,2) lt a sample_exec(1) lt2 b sample_retake c by blast
qed

text \<open>
  The reset of an adaptive retake on the sample session: after one question answered
  correctly the score is 1, and the retake starts the new session with score 0.
\<close>

theorem retake_resets_score:
  "map_option (\<lambda>st. score (fst st))
      (exec calmEnv [Select ''Merge sort'', Submit, Advance]
         (mount [sampleQuestion] sampleTopic, freshWorld)) = Some 1
   \<and> map_option (\<lambda>st. score (fst st))
      (exec calmEnv [Select ''Merge sort'', Submit, Advance, AdaptiveRetake]
         (mount [sampleQuestion] sampleTopic, freshWorld)) = Some 0"
  unfolding sample_exec by (simp add: completedView_def mount_def)

section \<open>A whole run\<close>

lemma callService_third_attempt:
  assumes "rateLimited e0" and "rateLimited e1"
    and "service (length (requests w)) req = Inl e0"
    and "service (length (requests w) + 1) req = Inl e1"
    and "service (length (requests w) + 2) req = Inr x"
  shows "callService service e req w =
     (Inr x,
      w\<lparr>requests := requests w @ [req, req, req],
        timers := timers w @ [1000 + mathRandom e (length (timers w)) * 1000,
                              2000 + mathRandom e (length (timers w) + 1) * 1000]\<rparr>)"
proof -
  let ?fn = "\<lambda>i. service (length (requests w) + i) req"
  let ?rnd = "\<lambda>i. mathRandom e (length (timers w) + i)"
  have s0: "retries ?fn 3 0" and s1: "retries ?fn 3 (Suc 0)"
    using assms by (simp_all add: retries_iff)
  have s2: "\<not> retries ?fn 3 (Suc (Suc 0))" by (simp add: retries_def)
  have f2: "?fn (Suc (Suc 0)) = Inr x" using assms(5) by (simp add: numeral_2_eq_2)
  have "withRetry ?fn ?rnd 3 =
      \<lparr>result = Inr x, attempts = 3,
       delays = [1000 + mathRandom e (length (timers w)) * 1000,
                 2000 + mathRandom e (length (timers w) + 1) * 1000]\<rparr>"
    unfolding withRetry_def
    using retryLoop_step[OF s0, of ?rnd Undefined "[]"]
      retryLoop_step[OF s1, of ?rnd e0 "[2 ^ 0 * 1000 + ?rnd 0 * 1000]"]
      retryLoop_stop[OF s2, of ?rnd e1
        "[2 ^ 0 * 1000 + ?rnd 0 * 1000, 2 ^ 1 * 1000 + ?rnd 1 * 1000]"]
      assms(3,4) f2
    by (simp add: settle_def)
  then show ?thesis
    by (simp add: callService_def numeral_3_eq_3)
qed

lemma flaky_summary:
  "generateGeneralSummary flakyEnv ''T'' freshWorld =
     (Inr sampleSummary,
      freshWorld\<lparr>invoked := [GenerateGeneralSummary ''T''], requests := [summaryRequest ''T'']\<rparr>)"
  using summary_first_success[of flakyEnv freshWorld "''T''" sampleSummary]
  by (simp add: flakyEnv_def calmEnv_def freshWorld_def)

lemma flaky_graph:
  "extractKnowledgeGraph flakyEnv ''T''
     (freshWorld\<lparr>invoked := [GenerateGeneralSummary ''T''], requests := [summaryRequest ''T'']\<rparr>) =
     (Inr sampleGraph,
      freshWorld\<lparr>invoked := [GenerateGeneralSummary ''T'', ExtractKnowledgeGraph ''T''],
                 requests := [summaryRequest ''T'', graphRequest ''T'', graphRequest ''T'',
                              graphRequest ''T''],
                 timers := [1500, 2500]\<rparr>)"
proof -
  have q: "rateLimited (Error (Some ''429 Too Many Requests''))" by (simp add: rateLimited_def)
  show ?thesis
    unfolding extractKnowledgeGraph_def
    using callService_third_attempt[OF q q, of "graphService flakyEnv"
      "freshWorld\<lparr>invoked := [GenerateGeneralSummary ''T''], requests := [summaryRequest ''T'']\<rparr>
        \<lparr>invoked := invoked (freshWorld\<lparr>invoked := [GenerateGeneralSummary ''T''],
                 requests := [summaryRequest ''T'']\<rparr>) @ [ExtractKnowledgeGraph ''T'']\<rparr>"
      "graphRequest ''T''" sampleGraph flakyEnv]
    by (simp add: flakyEnv_def calmEnv_def freshWorld_def)
qed

lemma flaky_topics:
  "extractTopics flakyEnv ''T''
     (freshWorld\<lparr>invoked := [GenerateGeneralSummary ''T'', ExtractKnowledgeGraph ''T''],
                 requests := [summaryRequest ''T'', graphRequest ''T'', graphRequest ''T'',
                              graphRequest ''T''],
                 timers := [1500, 2500]\<rparr>) =
     (Inr \<lparr>TopicExtractionResponse.topics = [sampleTopic]\<rparr>,
      freshWorld\<lparr>invoked := [GenerateGeneralSummary ''T'', ExtractKnowledgeGraph ''T'',
                             ExtractTopics ''T''],
                 requests := [summaryRequest ''T'', graphRequest ''T'', graphRequest ''T'',
                              graphRequest ''T'', topicsRequest ''T''],
                 timers := [1500, 2500]\<rparr>)"
  using topics_first_success[of flakyEnv
      "freshWorld\<lparr>invoked := [GenerateGeneralSummary ''T'', ExtractKnowledgeGraph ''T''],
                 requests := [summaryRequest ''T'', graphRequest ''T'', graphRequest ''T'',
                              graphRequest ''T''],
                 timers := [1500, 2500]\<rparr>"
      "''T''" "\<lparr>TopicExtractionResponse.topics = [sampleTopic]\<rparr>"]
  by (simp add: flakyEnv_def calmEnv_def freshWorld_def)

text \<open>
  A run on the text \<open>T\<close> in which Summary succeeds, the knowledge-graph request is rate
  limited twice and then answered, and Topics succeeds: the run ends in
  \<^verbatim>\<open>SUMMARY_VIEW\<close> with the three artifacts, after five requests and the two delays of
  the second stage, and without an alert.
\<close>

theorem runPipeline_survives_two_rate_limits:
  "fst (runPipeline flakyEnv ''T'' initialApp freshWorld) = None
   \<and> finalApp initialApp (runPipeline flakyEnv ''T'' initialApp freshWorld)
        = initialApp\<lparr>appState := SUMMARY_VIEW,
                     loadingMsg := ''Deconstructing Lecture Architecture...'',
                     summaryData := Some sampleSummary, kgData := Some sampleGraph,
                     topics := [sampleTopic]\<rparr>
   \<and> requests (snd (snd (runPipeline flakyEnv ''T'' initialApp freshWorld)))
        = [summaryRequest ''T'', graphRequest ''T'', graphRequest ''T'', graphRequest ''T'',
           topicsRequest ''T'']
   \<and> timers (snd (snd (runPipeline flakyEnv ''T'' initialApp freshWorld))) = [1500, 2500]
   \<and> alerts (snd (snd (runPipeline flakyEnv ''T'' initialApp freshWorld))) = []"
  unfolding runPipeline_succeeds[OF trim_T flaky_summary flaky_graph flaky_topics]
  by (simp add: finalApp_def freshWorld_def)

end
